theory Spec2Isabelle
  imports Complex_Main "HOL-Library.Sublist"
begin

section \<open>The TLO mTLS proxy (src/app/server.js)\<close>

text \<open>
  The program is one Express application with one interesting route,
  \<^verbatim>\<open>POST /tlo/person-search\<close>. The embedding follows the source top to bottom: the
  JavaScript values the handler touches, the configuration object, the helpers
  \<^verbatim>\<open>log\<close>, \<^verbatim>\<open>xmlEscape\<close>, \<^verbatim>\<open>buildSoap\<close>, the promise returned by \<^verbatim>\<open>callTlo\<close>, and the handler
  with its retry loop.

  A JavaScript string is a sequence of UTF-16 code units, each a number below 65536: a
  \<open>jsstring\<close> is the list of its code units, \<open>js\<close> writes the string of a literal of the
  program, and \<open>cu\<close> the code unit of one of its characters. The names of properties, of
  headers and of environment variables, which the program only compares with its own
  literals, are \<^typ>\<open>string\<close>s.
\<close>

type_synonym jsstring = "nat list"

definition cu :: "char \<Rightarrow> nat" where
  "cu c = of_char c"

definition js :: "string \<Rightarrow> jsstring" where
  "js s = map cu s"

subsection \<open>JavaScript values\<close>

text \<open>
  A number is \<open>NaN\<close>, an infinity, or a finite value; the finite doubles are embedded in
  the rationals (\<open>-0\<close> and \<open>+0\<close> are one value: the program only tests a number for
  truthiness or prints it, and both treat the two zeros alike).
\<close>

datatype jsnum = NaN | PosInfinity | NegInfinity | Finite rat

datatype jsval =
    Undefined
  | Null
  | Bool bool
  | Num jsnum
  | Str jsstring
  | Arr "jsval list"
  | Obj "(string \<times> jsval) list"

text \<open>ToBoolean: what \<^verbatim>\<open>!v\<close>, \<^verbatim>\<open>v && w\<close> and \<^verbatim>\<open>v || w\<close> test.\<close>

fun truthy :: "jsval \<Rightarrow> bool" where
  "truthy Undefined = False"
| "truthy Null = False"
| "truthy (Bool b) = b"
| "truthy (Num NaN) = False"
| "truthy (Num (Finite q)) = (q \<noteq> 0)"
| "truthy (Num PosInfinity) = True"
| "truthy (Num NegInfinity) = True"
| "truthy (Str s) = (s \<noteq> [])"
| "truthy (Arr xs) = True"
| "truthy (Obj kvs) = True"

text \<open>
  Reading a property \<^verbatim>\<open>v[k]\<close> of a value that is neither \<^verbatim>\<open>undefined\<close> nor \<^verbatim>\<open>null\<close>, for
  the keys the program reads (\<^verbatim>\<open>firstName\<close>, \<^verbatim>\<open>ErrorCode\<close>, \<^verbatim>\<open>soap:Body\<close>, ...): none of them
  is an array index or a property of a prototype, so only an object can hold one.
\<close>

fun get :: "jsval \<Rightarrow> string \<Rightarrow> jsval" where
  "get (Obj kvs) k = (case map_of kvs k of Some v \<Rightarrow> v | None \<Rightarrow> Undefined)"
| "get v k = Undefined"

text \<open>Optional chaining \<^verbatim>\<open>v?.[k]\<close>.\<close>

definition opt_get :: "jsval \<Rightarrow> string \<Rightarrow> jsval" where
  "opt_get v k = (if v = Undefined \<or> v = Null then Undefined else get v k)"

text \<open>
  What the program uses and does not define: the parser of the xml2js package and a few
  built-ins of the language runtime whose results depend on floating point or on the
  prototype of an object. They are parameters of the model.
  \<^item> \<open>parseStringPromise raw\<close> is \<^verbatim>\<open>parseStringPromise(raw, {explicitArray: false})\<close>:
    \<open>Inl m\<close> when the promise rejects with an error of message \<open>m\<close>, \<open>Inr v\<close> when it
    resolves with \<open>v\<close>;
  \<^item> \<open>ObjectToString v\<close> is the conversion of an array or object to a primitive string
    (\<open>Inl m\<close>: a TypeError of message \<open>m\<close>);
  \<^item> \<open>NumberToString q\<close> prints a finite number, \<open>StringToNumber s\<close> reads one;
  \<^item> \<open>now k\<close> is \<^verbatim>\<open>new Date().toISOString()\<close> at the moment attempt \<open>k\<close> is logged.
\<close>

record runtime =
  parseStringPromise :: "jsstring \<Rightarrow> jsstring + jsval"
  ObjectToString :: "jsval \<Rightarrow> jsstring + jsstring"
  NumberToString :: "rat \<Rightarrow> jsstring"
  StringToNumber :: "jsstring \<Rightarrow> jsnum"
  now :: "nat \<Rightarrow> jsstring"

text \<open>\<^verbatim>\<open>String(v)\<close>.\<close>

fun String_js :: "runtime \<Rightarrow> jsval \<Rightarrow> jsstring + jsstring" where
  "String_js rt Undefined = Inr (js ''undefined'')"
| "String_js rt Null = Inr (js ''null'')"
| "String_js rt (Bool b) = Inr (if b then js ''true'' else js ''false'')"
| "String_js rt (Num NaN) = Inr (js ''NaN'')"
| "String_js rt (Num PosInfinity) = Inr (js ''Infinity'')"
| "String_js rt (Num NegInfinity) = Inr (js ''-Infinity'')"
| "String_js rt (Num (Finite q)) = Inr (NumberToString rt q)"
| "String_js rt (Str s) = Inr s"
| "String_js rt (Arr xs) = ObjectToString rt (Arr xs)"
| "String_js rt (Obj kvs) = ObjectToString rt (Obj kvs)"

text \<open>
  \<^verbatim>\<open>Number(v)\<close>. The empty string reads as 0; what another string reads as is left to the
  runtime.
\<close>

definition read_number :: "runtime \<Rightarrow> jsstring \<Rightarrow> jsnum" where
  "read_number rt s = (if s = [] then Finite 0 else StringToNumber rt s)"

fun Number_js :: "runtime \<Rightarrow> jsval \<Rightarrow> jsstring + jsnum" where
  "Number_js rt Undefined = Inr NaN"
| "Number_js rt Null = Inr (Finite 0)"
| "Number_js rt (Bool b) = Inr (Finite (if b then 1 else 0))"
| "Number_js rt (Num n) = Inr n"
| "Number_js rt (Str s) = Inr (read_number rt s)"
| "Number_js rt (Arr xs) =
     (case ObjectToString rt (Arr xs) of Inl e \<Rightarrow> Inl e | Inr s \<Rightarrow> Inr (read_number rt s))"
| "Number_js rt (Obj kvs) =
     (case ObjectToString rt (Obj kvs) of Inl e \<Rightarrow> Inl e | Inr s \<Rightarrow> Inr (read_number rt s))"


subsection \<open>CONFIG\<close>

record config =
  PORT :: jsval
  SHARED_SECRET :: "jsstring option"
  TLO_USERNAME :: "jsstring option"
  TLO_PASSWORD :: "jsstring option"
  CERT_PATH :: "jsstring option"
  KEY_PATH :: "jsstring option"
  TLO_URL :: jsstring
  SOAP_ACTION :: jsstring
  TIMEOUT_MS :: nat
  RETRIES :: nat

text \<open>
  \<open>env\<close> is \<^verbatim>\<open>process.env\<close>: a variable that is not set reads \<^verbatim>\<open>undefined\<close> (\<open>None\<close>).
\<close>

definition CONFIG :: "(string \<Rightarrow> jsstring option) \<Rightarrow> config" where
  "CONFIG env =
    \<lparr> PORT = (case env ''PORT'' of
                None \<Rightarrow> Num (Finite 3000)
              | Some p \<Rightarrow> if p = [] then Num (Finite 3000) else Str p),
      SHARED_SECRET = env ''SHARED_SECRET'',
      TLO_USERNAME = env ''TLO_USERNAME'',
      TLO_PASSWORD = env ''TLO_PASSWORD'',
      CERT_PATH = env ''TLO_CERT_PATH'',
      KEY_PATH = env ''TLO_KEY_PATH'',
      TLO_URL = js ''https://secureapi.tlo.com/TLOWebService.asmx'',
      SOAP_ACTION = js ''http://tlo.com/PersonSearch'',
      TIMEOUT_MS = 20000,
      RETRIES = 2 \<rparr>"

definition env_value :: "jsstring option \<Rightarrow> jsval" where
  "env_value x = (case x of None \<Rightarrow> Undefined | Some s \<Rightarrow> Str s)"

subsection \<open>Utilities: log, xmlEscape, buildSoap\<close>

text \<open>
  \<^verbatim>\<open>log(level, msg, extra)\<close> prints \<^verbatim>\<open>JSON.stringify({ts, level, msg, ...extra})\<close>; the model
  returns the object that is printed. The keys of \<open>extra\<close> at the two call sites
  (\<^verbatim>\<open>attempt\<close>, \<^verbatim>\<open>err\<close>, \<^verbatim>\<open>port\<close>) do not clash with the first three.
\<close>

definition log_js ::
  "runtime \<Rightarrow> nat \<Rightarrow> jsstring \<Rightarrow> jsstring \<Rightarrow> (string \<times> jsval) list \<Rightarrow> jsval"
where
  "log_js rt k level msg extra =
     Obj ([(''ts'', Str (now rt k)), (''level'', Str level), (''msg'', Str msg)] @ extra)"

text \<open>\<^verbatim>\<open>s.replace(/c/g, r)\<close> for a pattern of one character, which is one code unit.\<close>

definition replace_all :: "nat \<Rightarrow> jsstring \<Rightarrow> jsstring \<Rightarrow> jsstring" where
  "replace_all c r s = concat (map (\<lambda>x. if x = c then r else [x]) s)"

definition escape5 :: "jsstring \<Rightarrow> jsstring" where
  "escape5 s =
     replace_all (cu (CHR 0x27)) (js ''&apos;'')
       (replace_all (cu (CHR 0x22)) (js ''&quot;'')
         (replace_all (cu CHR ''>'') (js ''&gt;'')
           (replace_all (cu CHR ''<'') (js ''&lt;'')
             (replace_all (cu CHR ''&'') (js ''&amp;'') s))))"

definition xmlEscape :: "runtime \<Rightarrow> jsval \<Rightarrow> jsstring + jsstring" where
  "xmlEscape rt v = (case String_js rt v of Inl e \<Rightarrow> Inl e | Inr s \<Rightarrow> Inr (escape5 s))"

definition nl :: jsstring where
  "nl = [cu (CHR 0x0A)]"

definition soap_declaration :: jsstring where
  \<open>soap_declaration = js ''<?xml version="1.0" encoding="utf-8"?>''\<close>

definition soap_head :: jsstring where
  \<open>soap_head =
     nl @
     js ''<soapenv:Envelope xmlns:soapenv="http://schemas.xmlsoap.org/soap/envelope/" xmlns:tlo="http://tlo.com/">'' @
     nl @
     js ''  <soapenv:Header/>'' @
     nl @
     js ''  <soapenv:Body>'' @
     nl @
     js ''    <tlo:PersonSearch>'' @
     nl @
     js ''      <tlo:genericSearchInput>'' @
     nl @
     js ''        <tlo:Username>''\<close>

definition soap_after_username :: jsstring where
  \<open>soap_after_username =
     js ''</tlo:Username>'' @
     nl @
     js ''        <tlo:Password>''\<close>

definition soap_after_password :: jsstring where
  \<open>soap_after_password =
     js ''</tlo:Password>'' @
     nl @
     js ''        <tlo:DPPAPurpose>0</tlo:DPPAPurpose>'' @
     nl @
     js ''        <tlo:GLBPurpose>0</tlo:GLBPurpose>'' @
     nl @
     js ''        <tlo:NumberOfRecords>25</tlo:NumberOfRecords>'' @
     nl @
     js ''        <tlo:StartingRecord>1</tlo:StartingRecord>'' @
     nl @
     js ''        <tlo:Name>'' @
     nl @
     js ''          <tlo:FirstName>''\<close>

definition soap_after_firstName :: jsstring where
  \<open>soap_after_firstName =
     js ''</tlo:FirstName>'' @
     nl @
     js ''          <tlo:LastName>''\<close>

definition soap_after_lastName :: jsstring where
  \<open>soap_after_lastName =
     js ''</tlo:LastName>'' @
     nl @
     js ''        </tlo:Name>'' @
     nl @
     js ''        <tlo:SSN>''\<close>

definition soap_tail :: jsstring where
  \<open>soap_tail =
     js ''</tlo:SSN>'' @
     nl @
     js ''      </tlo:genericSearchInput>'' @
     nl @
     js ''    </tlo:PersonSearch>'' @
     nl @
     js ''  </soapenv:Body>'' @
     nl @
     js ''</soapenv:Envelope>''\<close>

text \<open>The template literal with its five holes filled.\<close>

definition envelope ::
  "jsstring \<Rightarrow> jsstring \<Rightarrow> jsstring \<Rightarrow> jsstring \<Rightarrow> jsstring \<Rightarrow> jsstring"
where
  "envelope u p f l s =
     soap_declaration @ soap_head @ u @ soap_after_username @ p @ soap_after_password @ f @
     soap_after_firstName @ l @ soap_after_lastName @ s @ soap_tail"

record search_query =
  firstName :: jsval
  lastName :: jsval
  ssn :: jsval

text \<open>
  The interpolations are evaluated left to right; the first \<^verbatim>\<open>String(v)\<close> that throws
  ends the call.
\<close>

definition buildSoap :: "runtime \<Rightarrow> config \<Rightarrow> search_query \<Rightarrow> jsstring + jsstring" where
  "buildSoap rt cfg q =
    (case xmlEscape rt (env_value (TLO_USERNAME cfg)) of Inl e \<Rightarrow> Inl e | Inr u \<Rightarrow>
     case xmlEscape rt (env_value (TLO_PASSWORD cfg)) of Inl e \<Rightarrow> Inl e | Inr p \<Rightarrow>
     case xmlEscape rt (firstName q) of Inl e \<Rightarrow> Inl e | Inr f \<Rightarrow>
     case xmlEscape rt (lastName q) of Inl e \<Rightarrow> Inl e | Inr l \<Rightarrow>
     case xmlEscape rt (ssn q) of Inl e \<Rightarrow> Inl e | Inr s \<Rightarrow>
     Inr (envelope u p f l s))"

subsection \<open>callTlo\<close>

text \<open>
  The request that \<^verbatim>\<open>https.request\<close> is given. The agent with the client certificate and
  key belongs to the transport and is not part of the model.
\<close>

record outbound =
  url :: jsstring
  http_method :: jsstring
  timeout :: nat
  content_type :: jsstring
  soap_action :: jsstring
  content_length :: nat
  payload :: jsstring

text \<open>
  \<^verbatim>\<open>Buffer.from(s, "utf8").length\<close>: a surrogate pair is four bytes; a code unit alone is
  one, two or three bytes (a surrogate without its partner is written as U+FFFD).
\<close>

definition high_surrogate :: "nat \<Rightarrow> bool" where
  "high_surrogate c = (0xD800 \<le> c \<and> c \<le> 0xDBFF)"

definition low_surrogate :: "nat \<Rightarrow> bool" where
  "low_surrogate c = (0xDC00 \<le> c \<and> c \<le> 0xDFFF)"

definition unit_bytes :: "nat \<Rightarrow> nat" where
  "unit_bytes c = (if c < 0x80 then 1 else if c < 0x800 then 2 else 3)"

fun utf8_length :: "jsstring \<Rightarrow> nat" where
  "utf8_length [] = 0"
| "utf8_length [c] = unit_bytes c"
| "utf8_length (c # d # cs) =
     (if high_surrogate c \<and> low_surrogate d then 4 + utf8_length cs
      else unit_bytes c + utf8_length (d # cs))"

definition request_of :: "config \<Rightarrow> jsstring \<Rightarrow> outbound" where
  \<open>request_of cfg soapXml =
    \<lparr> url = TLO_URL cfg,
      http_method = js ''POST'',
      timeout = TIMEOUT_MS cfg,
      content_type = js ''text/xml; charset=utf-8'',
      soap_action = [cu (CHR 0x22)] @ SOAP_ACTION cfg @ [cu (CHR 0x22)],
      content_length = utf8_length soapXml,
      payload = soapXml \<rparr>\<close>

text \<open>
  What the network does with one request is a sequence of events on the request and on
  its response. \<^verbatim>\<open>callTlo\<close> registers a listener for \<^verbatim>\<open>error\<close> on the request, a response
  callback, and listeners for \<^verbatim>\<open>data\<close> and \<^verbatim>\<open>end\<close> on the response; it registers none for
  the \<^verbatim>\<open>timeout\<close> event that the \<^verbatim>\<open>timeout\<close> option makes the request emit.
\<close>

datatype net_event =
    ReqError jsstring
  | ReqTimeout
  | Response nat
  | Data jsstring
  | End

datatype promise = Pending | Resolved nat jsstring | Rejected jsstring

record call_state =
  settled :: promise
  res :: "(nat \<times> jsstring list) option"

text \<open>A promise is settled once: \<^verbatim>\<open>resolve\<close> and \<^verbatim>\<open>reject\<close> after that do nothing.\<close>

definition settle :: "promise \<Rightarrow> call_state \<Rightarrow> call_state" where
  "settle p s = (if settled s = Pending then s\<lparr>settled := p\<rparr> else s)"

fun on_event :: "call_state \<Rightarrow> net_event \<Rightarrow> call_state" where
  "on_event s (ReqError m) = settle (Rejected m) s"
| "on_event s ReqTimeout = s"
| "on_event s (Response st) =
     (case res s of None \<Rightarrow> s\<lparr>res := Some (st, [])\<rparr> | Some r \<Rightarrow> s)"
| "on_event s (Data d) =
     (case res s of None \<Rightarrow> s | Some (st, chunks) \<Rightarrow> s\<lparr>res := Some (st, chunks @ [d])\<rparr>)"
| "on_event s End =
     (case res s of None \<Rightarrow> s | Some (st, chunks) \<Rightarrow> settle (Resolved st (concat chunks)) s)"

definition callTlo :: "config \<Rightarrow> (outbound \<Rightarrow> net_event list) \<Rightarrow> jsstring \<Rightarrow> promise" where
  "callTlo cfg net soapXml =
     settled (foldl on_event \<lparr>settled = Pending, res = None\<rparr> (net (request_of cfg soapXml)))"

subsection \<open>The route POST /tlo/person-search\<close>

record request =
  header :: "string \<Rightarrow> jsstring option"
  body :: jsval

text \<open>
  What one run of the handler does, in order: requests handed to \<^verbatim>\<open>https.request\<close>, lines
  logged, and the response sent with its status and the value given to \<^verbatim>\<open>res.json\<close>. A
  run ends when the handler returns, or it waits for ever on a promise that is never
  settled, or an exception leaves the handler.
\<close>

datatype effect =
    OutboundCall outbound
  | Logged jsval
  | Respond nat jsval

datatype ending = Returned | Hangs | Throws jsstring

record run =
  trace :: "effect list"
  ending :: ending

definition prepend :: "effect list \<Rightarrow> run \<Rightarrow> run" where
  "prepend es r = r\<lparr>trace := es @ trace r\<rparr>"

text \<open>
  \<^verbatim>\<open>parsed?.["soap:Envelope"]?.["soap:Body"]?.PersonSearchResponse?.PersonSearchResult\<close>
\<close>

definition result_node :: "jsval \<Rightarrow> jsval" where
  "result_node parsed =
     opt_get (opt_get (opt_get (opt_get parsed ''soap:Envelope'') ''soap:Body'')
       ''PersonSearchResponse'') ''PersonSearchResult''"

text \<open>
  The statements of the \<^verbatim>\<open>try\<close> block after \<^verbatim>\<open>await callTlo(soap)\<close>: \<open>Inr\<close> is the response
  of the \<^verbatim>\<open>return\<close> that is reached, \<open>Inl m\<close> an exception of message \<open>m\<close>.
\<close>

definition try_body :: "runtime \<Rightarrow> jsstring \<Rightarrow> jsstring + nat \<times> jsval" where
  "try_body rt raw =
    (case parseStringPromise rt raw of
       Inl e \<Rightarrow> Inl e
     | Inr parsed \<Rightarrow>
        let result = result_node parsed in
          if \<not> truthy result then
            Inr (502, Obj [(''ok'', Bool False), (''error'', Str (js ''SOAP_PARSE_FAILED'')),
                           (''rawStart'', Str (take 500 raw))])
          else if truthy (get result ''ErrorCode'') \<and> get result ''ErrorCode'' \<noteq> Str (js ''0'') then
            Inr (200, Obj [(''ok'', Bool False), (''tloError'', Bool True),
                           (''errorCode'', get result ''ErrorCode''),
                           (''errorMessage'', get result ''ErrorMessage'')])
          else
            (case Number_js rt (get result ''NumberOfRecordsFound'') of
               Inl e \<Rightarrow> Inl e
             | Inr n \<Rightarrow>
                Inr (200, Obj [(''ok'', Bool True),
                               (''transactionId'', get result ''TransactionId''),
                               (''recordsFound'', Num n),
                               (''data'', result)])))"

text \<open>
  One iteration of the \<^verbatim>\<open>for\<close> loop up to the \<^verbatim>\<open>catch\<close>: \<open>None\<close> when the awaited promise
  stays pending, otherwise what the \<^verbatim>\<open>try\<close> block produced.
\<close>

definition try_block ::
  "runtime \<Rightarrow> config \<Rightarrow> (outbound \<Rightarrow> net_event list) \<Rightarrow> jsstring
     \<Rightarrow> (jsstring + nat \<times> jsval) option"
where
  "try_block rt cfg net soap =
    (case callTlo cfg net soap of
       Pending \<Rightarrow> None
     | Rejected m \<Rightarrow> Some (Inl m)
     | Resolved st raw \<Rightarrow> Some (try_body rt raw))"

definition timeout_response :: effect where
  "timeout_response = Respond 504 (Obj [(''ok'', Bool False), (''error'', Str (js ''TLO_TIMEOUT''))])"

text \<open>\<^verbatim>\<open>log("warn", "tlo_attempt_failed", { attempt, err: err.message })\<close>\<close>

definition attempt_failed :: "runtime \<Rightarrow> nat \<Rightarrow> jsstring \<Rightarrow> effect" where
  "attempt_failed rt attempt message =
     Logged (log_js rt attempt (js ''warn'') (js ''tlo_attempt_failed'')
               [(''attempt'', Num (Finite (of_nat attempt))), (''err'', Str message)])"

text \<open>
  The loop \<^verbatim>\<open>for (let attempt = 1; attempt <= CONFIG.RETRIES + 1; attempt++)\<close>, from the
  iteration \<open>attempt\<close> on. \<open>net k\<close> is what the network does with the \<open>k\<close>-th call.
\<close>

function attempts ::
  "runtime \<Rightarrow> config \<Rightarrow> (nat \<Rightarrow> outbound \<Rightarrow> net_event list) \<Rightarrow> jsstring \<Rightarrow> nat \<Rightarrow> run"
where
  "attempts rt cfg net soap attempt =
    (if attempt \<le> RETRIES cfg + 1 then
       (case try_block rt cfg (net attempt) soap of
          None \<Rightarrow> \<lparr>trace = [OutboundCall (request_of cfg soap)], ending = Hangs\<rparr>
        | Some (Inr (status, json)) \<Rightarrow>
            \<lparr>trace = [OutboundCall (request_of cfg soap), Respond status json],
             ending = Returned\<rparr>
        | Some (Inl message) \<Rightarrow>
            (if attempt > RETRIES cfg then
               \<lparr>trace = [OutboundCall (request_of cfg soap),
                         attempt_failed rt attempt message,
                         timeout_response],
                ending = Returned\<rparr>
             else
               prepend [OutboundCall (request_of cfg soap), attempt_failed rt attempt message]
                 (attempts rt cfg net soap (attempt + 1))))
     else \<lparr>trace = [], ending = Returned\<rparr>)"
  by pat_completeness auto
termination
  by (relation "measure (\<lambda>(rt, cfg, net, soap, attempt). RETRIES cfg + 2 - attempt)") auto

declare attempts.simps [simp del]

text \<open>\<^verbatim>\<open>const { firstName, lastName, ssn } = req.body || {}\<close>\<close>

definition query_of :: "request \<Rightarrow> search_query" where
  "query_of req =
     (let b = (if truthy (body req) then body req else Obj [])
      in \<lparr>firstName = get b ''firstName'', lastName = get b ''lastName'', ssn = get b ''ssn''\<rparr>)"

definition person_search ::
  "runtime \<Rightarrow> config \<Rightarrow> (nat \<Rightarrow> outbound \<Rightarrow> net_event list) \<Rightarrow> request \<Rightarrow> run"
where
  "person_search rt cfg net req =
    (if header req ''x-shared-secret'' \<noteq> SHARED_SECRET cfg then
       \<lparr>trace = [Respond 401 (Obj [(''ok'', Bool False), (''error'', Str (js ''UNAUTHORIZED''))])],
        ending = Returned\<rparr>
     else
       let q = query_of req in
         if \<not> truthy (firstName q) \<or> \<not> truthy (lastName q) \<or> \<not> truthy (ssn q) then
           \<lparr>trace = [Respond 400 (Obj [(''ok'', Bool False), (''error'', Str (js ''INVALID_INPUT''))])],
            ending = Returned\<rparr>
         else
           (case buildSoap rt cfg q of
              Inl e \<Rightarrow> \<lparr>trace = [], ending = Throws e\<rparr>
            | Inr soap \<Rightarrow> attempts rt cfg net soap 1))"

text \<open>The line logged by the callback of \<^verbatim>\<open>app.listen\<close>.\<close>

definition startup_log :: "runtime \<Rightarrow> config \<Rightarrow> jsval" where
  "startup_log rt cfg = log_js rt 0 (js ''info'') (js ''proxy_started'') [(''port'', PORT cfg)]"

text \<open>The outbound calls and the responses of a run.\<close>

definition calls :: "run \<Rightarrow> outbound list" where
  "calls r = concat (map (\<lambda>e. case e of OutboundCall c \<Rightarrow> [c] | _ \<Rightarrow> []) (trace r))"

definition responses :: "run \<Rightarrow> (nat \<times> jsval) list" where
  "responses r = concat (map (\<lambda>e. case e of Respond st j \<Rightarrow> [(st, j)] | _ \<Rightarrow> []) (trace r))"

definition logged :: "run \<Rightarrow> jsval list" where
  "logged r = concat (map (\<lambda>e. case e of Logged j \<Rightarrow> [j] | _ \<Rightarrow> []) (trace r))"

text \<open>What a run shows to the caller and to the log: its trace without the outbound calls.\<close>

definition visible :: "run \<Rightarrow> effect list" where
  "visible r = filter (\<lambda>e. case e of OutboundCall c \<Rightarrow> False | _ \<Rightarrow> True) (trace r)"

subsection \<open>Reading XML\<close>

text \<open>
  The envelope is meant to be read by an XML processor. The reader below follows the
  XML 1.0 recommendation on the part of the language the envelope is written in: an
  optional XML declaration, elements with attributes, empty-element tags, character
  data and the five predefined entity references. It has no comments, processing
  instructions, CDATA sections, document type declarations or character references, and
  rejects a document that uses one. It reads the code units of a JavaScript string: the
  request body is that string written as UTF-8, which is the same sequence of
  characters when every surrogate of the string is paired. The numbers in brackets are
  the productions of the recommendation.
\<close>

datatype xml = Element jsstring "(jsstring \<times> jsstring) list" "xml list" | Text jsstring

datatype token =
    STag jsstring "(jsstring \<times> jsstring) list"
  | ETag jsstring
  | EmptyTag jsstring "(jsstring \<times> jsstring) list"
  | CharData jsstring

text \<open>
  [2] Char, for a code unit that stands for a character by itself: tab, line feed,
  carriage return, and the characters from space to U+D7FF and from U+E000 to U+FFFD.
  A character from U+10000 on is a high surrogate followed by a low surrogate, and a
  surrogate anywhere else stands for no character.
\<close>

definition xml_char :: "nat \<Rightarrow> bool" where
  "xml_char c =
     (c = 0x09 \<or> c = 0x0A \<or> c = 0x0D \<or> (0x20 \<le> c \<and> c \<le> 0xD7FF)
      \<or> (0xE000 \<le> c \<and> c \<le> 0xFFFD))"

fun xml_chars :: "jsstring \<Rightarrow> bool" where
  "xml_chars [] = True"
| "xml_chars [c] = xml_char c"
| "xml_chars (c # d # cs) =
     (if high_surrogate c then low_surrogate d \<and> xml_chars cs
      else xml_char c \<and> xml_chars (d # cs))"

text \<open>[3] S\<close>

definition is_space :: "nat \<Rightarrow> bool" where
  "is_space c = (c = 0x20 \<or> c = 0x09 \<or> c = 0x0A \<or> c = 0x0D)"

text \<open>
  [4] NameStartChar and [4a] NameChar, for the characters of one code unit (the reader
  takes no name with a character from U+10000 on).
\<close>

definition name_start_char :: "nat \<Rightarrow> bool" where
  "name_start_char c =
     (c = cu CHR '':'' \<or> c = cu CHR ''_''
      \<or> (cu CHR ''A'' \<le> c \<and> c \<le> cu CHR ''Z'')
      \<or> (cu CHR ''a'' \<le> c \<and> c \<le> cu CHR ''z'')
      \<or> (0xC0 \<le> c \<and> c \<le> 0xD6)
      \<or> (0xD8 \<le> c \<and> c \<le> 0xF6)
      \<or> (0xF8 \<le> c \<and> c \<le> 0x2FF)
      \<or> (0x370 \<le> c \<and> c \<le> 0x37D)
      \<or> (0x37F \<le> c \<and> c \<le> 0x1FFF)
      \<or> (0x200C \<le> c \<and> c \<le> 0x200D)
      \<or> (0x2070 \<le> c \<and> c \<le> 0x218F)
      \<or> (0x2C00 \<le> c \<and> c \<le> 0x2FEF)
      \<or> (0x3001 \<le> c \<and> c \<le> 0xD7FF)
      \<or> (0xF900 \<le> c \<and> c \<le> 0xFDCF)
      \<or> (0xFDF0 \<le> c \<and> c \<le> 0xFFFD))"

definition name_char :: "nat \<Rightarrow> bool" where
  "name_char c =
     (name_start_char c \<or> c = cu CHR ''-'' \<or> c = cu CHR ''.''
      \<or> (cu CHR ''0'' \<le> c \<and> c \<le> cu CHR ''9'')
      \<or> c = 0xB7
      \<or> (0x300 \<le> c \<and> c \<le> 0x36F)
      \<or> (0x203F \<le> c \<and> c \<le> 0x2040))"

text \<open>
  2.11 End-of-line handling: before parsing, a carriage return followed by a line feed,
  and a carriage return alone, become one line feed.
\<close>

fun normalize_eol :: "jsstring \<Rightarrow> jsstring" where
  "normalize_eol [] = []"
| "normalize_eol [c] = (if c = 0x0D then [0x0A] else [c])"
| "normalize_eol (c # d # cs) =
     (if c = 0x0D then
        (if d = 0x0A then 0x0A # normalize_eol cs else 0x0A # normalize_eol (d # cs))
      else c # normalize_eol (d # cs))"

text \<open>
  [68] EntityRef, after the ampersand: the character of a predefined entity (4.6) and
  the number of code units that name it, semicolon included.
\<close>

definition reference :: "jsstring \<Rightarrow> (nat \<times> nat) option" where
  "reference cs =
     (if take 4 cs = js ''amp;'' then Some (cu CHR ''&'', 4)
      else if take 3 cs = js ''lt;'' then Some (cu CHR ''<'', 3)
      else if take 3 cs = js ''gt;'' then Some (cu CHR ''>'', 3)
      else if take 5 cs = js ''quot;'' then Some (cu (CHR 0x22), 5)
      else if take 5 cs = js ''apos;'' then Some (cu (CHR 0x27), 5)
      else None)"

text \<open>The text that a run of character data or an attribute value stands for.\<close>

fun decode :: "jsstring \<Rightarrow> jsstring option" where
  "decode [] = Some []"
| "decode (c # cs) =
     (if c = cu CHR ''&'' then
        (case reference cs of
           None \<Rightarrow> None
         | Some (d, n) \<Rightarrow> map_option ((#) d) (decode (drop n cs)))
      else map_option ((#) c) (decode cs))"

text \<open>[14] CharData excludes the sequence \<^verbatim>\<open>]]>\<close>.\<close>

fun has_cdata_end :: "jsstring \<Rightarrow> bool" where
  "has_cdata_end (a # b # c # cs) =
     ((a = cu CHR '']'' \<and> b = cu CHR '']'' \<and> c = cu CHR ''>'') \<or> has_cdata_end (b # c # cs))"
| "has_cdata_end cs = False"

text \<open>
  [10] AttValue: a quote, code units other than \<^verbatim>\<open><\<close> and that quote, the quote again. The
  value is normalized (3.3.3): white space becomes a space, references are replaced.
\<close>

definition att_value :: "jsstring \<Rightarrow> (jsstring \<times> jsstring) option" where
  "att_value cs =
    (case cs of
       [] \<Rightarrow> None
     | q # cs1 \<Rightarrow>
        if q \<noteq> cu (CHR 0x22) \<and> q \<noteq> cu (CHR 0x27) then None
        else
          let raw = takeWhile (\<lambda>c. c \<noteq> q) cs1;
              cs2 = dropWhile (\<lambda>c. c \<noteq> q) cs1
          in if cs2 = [] \<or> cu CHR ''<'' \<in> set raw then None
             else map_option (\<lambda>v. (v, tl cs2))
                    (decode (map (\<lambda>c. if is_space c then cu CHR '' '' else c) raw)))"

text \<open>
  [41] Attribute, repeated: white space, a name, \<^verbatim>\<open>=\<close>, a value. The result is the list of
  attributes and the input that follows them and the white space after them.
\<close>

function attributes :: "jsstring \<Rightarrow> ((jsstring \<times> jsstring) list \<times> jsstring) option" where
  "attributes cs =
    (let cs1 = dropWhile is_space cs in
     if cs1 = [] \<or> \<not> name_start_char (hd cs1) then Some ([], cs1)
     else if cs1 = cs then None
     else
       (case dropWhile is_space (dropWhile name_char cs1) of
          [] \<Rightarrow> None
        | e # cs2 \<Rightarrow>
           if e \<noteq> cu CHR ''='' then None
           else
             (case att_value (dropWhile is_space cs2) of
                None \<Rightarrow> None
              | Some (v, cs3) \<Rightarrow>
                 (case attributes cs3 of
                    None \<Rightarrow> None
                  | Some (as, rest) \<Rightarrow> Some ((takeWhile name_char cs1, v) # as, rest)))))"
  by pat_completeness auto
termination
proof (relation "measure length", goal_cases)
  case 1
  show ?case by simp
next
  case (2 cs cs1 e cs2 p v cs3)
  from 2 have a: "att_value (dropWhile is_space cs2) = Some (v, cs3)"
    by simp
  then obtain q xs where xs: "dropWhile is_space cs2 = q # xs"
    by (cases "dropWhile is_space cs2") (auto simp: att_value_def)
  from a xs have "cs3 = tl (dropWhile (\<lambda>c. c \<noteq> q) xs)"
    by (auto simp: att_value_def Let_def split: if_splits)
  then have "length cs3 \<le> length xs"
    using length_dropWhile_le [of "\<lambda>c. c \<noteq> q" xs] by simp
  also have "\<dots> < length (dropWhile is_space cs2)"
    using xs by simp
  also have "\<dots> \<le> length cs2"
    by (rule length_dropWhile_le)
  also have "\<dots> < length (dropWhile is_space (dropWhile name_char cs1))"
    using 2 by simp
  also have "\<dots> \<le> length (dropWhile name_char cs1)"
    by (rule length_dropWhile_le)
  also have "\<dots> \<le> length cs1"
    by (rule length_dropWhile_le)
  also have "\<dots> \<le> length cs"
    using 2 by (simp add: length_dropWhile_le)
  finally show ?case by simp
qed

declare attributes.simps [simp del]

text \<open>
  A tag, after its \<^verbatim>\<open><\<close>: [42] ETag, [40] STag or [44] EmptyElemTag, with the input that
  follows it. An attribute name appears once in a tag.
\<close>

definition tag :: "jsstring \<Rightarrow> (token \<times> jsstring) option" where
  "tag cs =
    (case cs of
       [] \<Rightarrow> None
     | c # cs1 \<Rightarrow>
        if c = cu CHR ''/'' then
          (if cs1 = [] \<or> \<not> name_start_char (hd cs1) then None
           else
             (case dropWhile is_space (dropWhile name_char cs1) of
                [] \<Rightarrow> None
              | g # rest \<Rightarrow>
                 if g = cu CHR ''>'' then Some (ETag (takeWhile name_char cs1), rest) else None))
        else if \<not> name_start_char c then None
        else
          (case attributes (dropWhile name_char cs) of
             None \<Rightarrow> None
           | Some (as, cs2) \<Rightarrow>
              if \<not> distinct (map fst as) then None
              else
                (case cs2 of
                   [] \<Rightarrow> None
                 | g # cs3 \<Rightarrow>
                    if g = cu CHR ''>'' then Some (STag (takeWhile name_char cs) as, cs3)
                    else if g = cu CHR ''/'' then
                      (case cs3 of
                         [] \<Rightarrow> None
                       | h # cs4 \<Rightarrow>
                          if h = cu CHR ''>'' then Some (EmptyTag (takeWhile name_char cs) as, cs4)
                          else None)
                    else None)))"

text \<open>
  [43] content, as tokens: character data up to the next \<^verbatim>\<open><\<close>, a tag, and so on. Every tag
  has a run of character data before it, which may be empty.
\<close>

function tokens :: "jsstring \<Rightarrow> token list option" where
  "tokens cs =
    (let raw = takeWhile (\<lambda>c. c \<noteq> cu CHR ''<'') cs;
         rest = dropWhile (\<lambda>c. c \<noteq> cu CHR ''<'') cs
     in if has_cdata_end raw then None
        else
          (case decode raw of
             None \<Rightarrow> None
           | Some t \<Rightarrow>
              (case rest of
                 [] \<Rightarrow> Some [CharData t]
               | lt # cs1 \<Rightarrow>
                  (case tag cs1 of
                     None \<Rightarrow> None
                   | Some (tok, cs2) \<Rightarrow>
                      map_option (\<lambda>ts. CharData t # tok # ts) (tokens cs2)))))"
  by pat_completeness auto
termination
proof (relation "measure length", goal_cases)
  case 1
  show ?case by simp
next
  case (2 cs raw rest t lt cs1 p tok cs2)
  have value_shorter: "length r < length xs" if "att_value xs = Some (v, r)" for xs v r
  proof -
    from that obtain q ys where xs: "xs = q # ys"
      by (cases xs) (auto simp: att_value_def)
    from that xs have "r = tl (dropWhile (\<lambda>c. c \<noteq> q) ys)"
      by (auto simp: att_value_def Let_def split: if_splits)
    then have "length r \<le> length ys"
      using length_dropWhile_le [of "\<lambda>c. c \<noteq> q" ys] by simp
    with xs show ?thesis by simp
  qed
  have attributes_shorter: "length r \<le> length xs" if "attributes xs = Some (as, r)"
    for xs as r
    using that
  proof (induction xs arbitrary: as r rule: attributes.induct)
    case (1 xs)
    let ?xs1 = "dropWhile is_space xs"
    show ?case
    proof (cases "?xs1 = [] \<or> \<not> name_start_char (hd ?xs1)")
      case True
      with "1.prems" have "r = ?xs1"
        by (subst (asm) attributes.simps) (auto simp: Let_def)
      then show ?thesis
        by (simp add: length_dropWhile_le)
    next
      case False
      with "1.prems" obtain e xs2 v xs3 as' where
        a: "?xs1 \<noteq> xs" and b: "dropWhile is_space (dropWhile name_char ?xs1) = e # xs2"
        and c: "e = cu CHR ''=''" and d: "att_value (dropWhile is_space xs2) = Some (v, xs3)"
        and e: "attributes xs3 = Some (as', r)"
        by (subst (asm) attributes.simps)
           (auto simp: Let_def split: list.splits if_splits option.splits)
      from c have c': "\<not> e \<noteq> cu CHR ''=''"
        by simp
      have "length r \<le> length xs3"
        by (rule "1.IH" [OF refl False a b c' d refl e])
      also have "\<dots> \<le> length (dropWhile is_space xs2)"
        using value_shorter [OF d] by simp
      also have "\<dots> \<le> length xs2"
        by (rule length_dropWhile_le)
      also have "\<dots> \<le> length (dropWhile is_space (dropWhile name_char ?xs1))"
        using b by simp
      also have "\<dots> \<le> length (dropWhile name_char ?xs1)"
        by (rule length_dropWhile_le)
      also have "\<dots> \<le> length ?xs1"
        by (rule length_dropWhile_le)
      also have "\<dots> \<le> length xs"
        by (rule length_dropWhile_le)
      finally show ?thesis .
    qed
  qed
  have tag_shorter: "length r < length xs" if "tag xs = Some (k, r)" for xs k r
  proof -
    from that obtain c xs1 where xs: "xs = c # xs1"
      by (cases xs) (auto simp: tag_def)
    show ?thesis
    proof (cases "c = cu CHR ''/''")
      case True
      with that xs obtain g where "dropWhile is_space (dropWhile name_char xs1) = g # r"
        by (auto simp: tag_def split: if_splits list.splits)
      then have "length r < length (dropWhile is_space (dropWhile name_char xs1))"
        by simp
      also have "\<dots> \<le> length (dropWhile name_char xs1)"
        by (rule length_dropWhile_le)
      also have "\<dots> \<le> length xs1"
        by (rule length_dropWhile_le)
      finally show ?thesis using xs by simp
    next
      case False
      with that xs obtain as xs2 where
        b: "attributes (dropWhile name_char xs) = Some (as, xs2)" and c: "length r < length xs2"
        by (auto simp: tag_def split: if_splits list.splits option.splits)
      have "length xs2 \<le> length (dropWhile name_char xs)"
        by (rule attributes_shorter [OF b])
      also have "\<dots> \<le> length xs"
        by (rule length_dropWhile_le)
      finally show ?thesis using c by simp
    qed
  qed
  have "length cs2 < length cs1"
    using 2 by (auto dest: tag_shorter)
  also have "\<dots> < length (dropWhile (\<lambda>c. c \<noteq> cu CHR ''<'') cs)"
    using 2 by (metis length_Cons lessI)
  also have "\<dots> \<le> length cs"
    by (rule length_dropWhile_le)
  finally show ?case by simp
qed

declare tokens.simps [simp del]

fun strip_prefix :: "jsstring \<Rightarrow> jsstring \<Rightarrow> jsstring option" where
  "strip_prefix [] ys = Some ys"
| "strip_prefix (x # xs) [] = None"
| "strip_prefix (x # xs) (y # ys) = (if x = y then strip_prefix xs ys else None)"

text \<open>
  [23] XMLDecl, when the document starts with one: the version, then perhaps the encoding,
  then perhaps the standalone declaration. The result is the input after it.
\<close>

definition prolog :: "jsstring \<Rightarrow> jsstring option" where
  "prolog cs =
    (case strip_prefix (js ''<?xml'') cs of
       None \<Rightarrow> Some cs
     | Some cs1 \<Rightarrow>
        (case attributes cs1 of
           None \<Rightarrow> None
         | Some (as, cs2) \<Rightarrow>
            if map fst as \<notin> {[js ''version''], [js ''version'', js ''encoding''],
                                [js ''version'', js ''standalone''],
                                [js ''version'', js ''encoding'', js ''standalone'']}
            then None
            else strip_prefix (js ''?>'') cs2))"

text \<open>
  The tree of a token list. A frame of the stack is an element that is open: its name,
  its attributes and the children read so far. Character data that is empty is no node.
  An end tag must name the element that is open ([39] element).
\<close>

definition texts :: "jsstring \<Rightarrow> xml list" where
  "texts t = (if t = [] then [] else [Text t])"

fun add_nodes ::
  "xml list \<Rightarrow> (jsstring \<times> (jsstring \<times> jsstring) list \<times> xml list) list \<Rightarrow> xml list
     \<Rightarrow> (jsstring \<times> (jsstring \<times> jsstring) list \<times> xml list) list \<times> xml list"
where
  "add_nodes xs [] roots = ([], roots @ xs)"
| "add_nodes xs ((n, as, kids) # st) roots = ((n, as, kids @ xs) # st, roots)"

fun build ::
  "(jsstring \<times> (jsstring \<times> jsstring) list \<times> xml list) list \<Rightarrow> xml list \<Rightarrow> token list
     \<Rightarrow> xml list option"
where
  "build st roots [] = (if st = [] then Some roots else None)"
| "build st roots (CharData t # ts) =
     (case add_nodes (texts t) st roots of (st', roots') \<Rightarrow> build st' roots' ts)"
| "build st roots (STag n as # ts) = build ((n, as, []) # st) roots ts"
| "build st roots (EmptyTag n as # ts) =
     (case add_nodes [Element n as []] st roots of (st', roots') \<Rightarrow> build st' roots' ts)"
| "build st roots (ETag n # ts) =
     (case st of
        [] \<Rightarrow> None
      | (m, as, kids) # st' \<Rightarrow>
         if m \<noteq> n then None
         else (case add_nodes [Element m as kids] st' roots of
                 (st'', roots') \<Rightarrow> build st'' roots' ts))"

fun blank :: "xml \<Rightarrow> bool" where
  "blank (Text t) = list_all is_space t"
| "blank (Element n as kids) = False"

text \<open>
  [1] document: the code units spell Chars; line ends are normalized; and after the
  declaration there is one root element, with nothing but white space around it.
\<close>

definition parse_normalized :: "jsstring \<Rightarrow> xml option" where
  "parse_normalized cs0 =
    (case prolog cs0 of
       None \<Rightarrow> None
     | Some cs \<Rightarrow>
        (case tokens cs of
           None \<Rightarrow> None
         | Some ts \<Rightarrow>
            (case build [] [] ts of
               None \<Rightarrow> None
             | Some nodes \<Rightarrow>
                (case filter (\<lambda>x. \<not> blank x) nodes of
                   [Element n as kids] \<Rightarrow> Some (Element n as kids)
                 | _ \<Rightarrow> None))))"

definition parse_xml :: "jsstring \<Rightarrow> xml option" where
  "parse_xml s = (if xml_chars s then parse_normalized (normalize_eol s) else None)"

text \<open>Text that a reader gives back as it is: Chars, and no carriage return.\<close>

definition xml_text :: "jsstring \<Rightarrow> bool" where
  "xml_text s = (xml_chars s \<and> 0x0D \<notin> set s)"

text \<open>The replacements of \<^verbatim>\<open>xmlEscape\<close> for one code unit.\<close>

definition esc1 :: "nat \<Rightarrow> jsstring" where
  "esc1 c =
     (if c = cu CHR ''&'' then js ''&amp;''
      else if c = cu CHR ''<'' then js ''&lt;''
      else if c = cu CHR ''>'' then js ''&gt;''
      else if c = cu (CHR 0x22) then js ''&quot;''
      else if c = cu (CHR 0x27) then js ''&apos;''
      else [c])"

text \<open>The tokens of the whole envelope after its declaration.\<close>

definition envelope_tokens ::
  "jsstring \<Rightarrow> jsstring \<Rightarrow> jsstring \<Rightarrow> jsstring \<Rightarrow> jsstring \<Rightarrow> token list"
where
  "envelope_tokens u p f l s =
     [CharData nl,
      STag (js ''soapenv:Envelope'')
        [(js ''xmlns:soapenv'', js ''http://schemas.xmlsoap.org/soap/envelope/''),
         (js ''xmlns:tlo'', js ''http://tlo.com/'')],
      CharData (nl @ js ''  ''), EmptyTag (js ''soapenv:Header'') [],
      CharData (nl @ js ''  ''), STag (js ''soapenv:Body'') [],
      CharData (nl @ js ''    ''), STag (js ''tlo:PersonSearch'') [],
      CharData (nl @ js ''      ''), STag (js ''tlo:genericSearchInput'') [],
      CharData (nl @ js ''        ''), STag (js ''tlo:Username'') [],
      CharData u, ETag (js ''tlo:Username''),
      CharData (nl @ js ''        ''), STag (js ''tlo:Password'') [],
      CharData p, ETag (js ''tlo:Password''),
      CharData (nl @ js ''        ''), STag (js ''tlo:DPPAPurpose'') [],
      CharData (js ''0''), ETag (js ''tlo:DPPAPurpose''),
      CharData (nl @ js ''        ''), STag (js ''tlo:GLBPurpose'') [],
      CharData (js ''0''), ETag (js ''tlo:GLBPurpose''),
      CharData (nl @ js ''        ''), STag (js ''tlo:NumberOfRecords'') [],
      CharData (js ''25''), ETag (js ''tlo:NumberOfRecords''),
      CharData (nl @ js ''        ''), STag (js ''tlo:StartingRecord'') [],
      CharData (js ''1''), ETag (js ''tlo:StartingRecord''),
      CharData (nl @ js ''        ''), STag (js ''tlo:Name'') [],
      CharData (nl @ js ''          ''), STag (js ''tlo:FirstName'') [],
      CharData f, ETag (js ''tlo:FirstName''),
      CharData (nl @ js ''          ''), STag (js ''tlo:LastName'') [],
      CharData l, ETag (js ''tlo:LastName''),
      CharData (nl @ js ''        ''), ETag (js ''tlo:Name''),
      CharData (nl @ js ''        ''), STag (js ''tlo:SSN'') [],
      CharData s, ETag (js ''tlo:SSN''),
      CharData (nl @ js ''      ''), ETag (js ''tlo:genericSearchInput''),
      CharData (nl @ js ''    ''), ETag (js ''tlo:PersonSearch''),
      CharData (nl @ js ''  ''), ETag (js ''soapenv:Body''),
      CharData nl, ETag (js ''soapenv:Envelope''), CharData []]"

text \<open>
  The document that the envelope is meant to be: the fixed elements of the template, with
  the five strings as the text of their elements. White space between elements is part
  of the content of the enclosing element.
\<close>

definition indent :: "nat \<Rightarrow> xml" where
  "indent n = Text (nl @ replicate n (cu CHR '' ''))"

definition leaf :: "jsstring \<Rightarrow> jsstring \<Rightarrow> xml" where
  "leaf name t = Element name [] (texts t)"

definition envelope_document ::
  "jsstring \<Rightarrow> jsstring \<Rightarrow> jsstring \<Rightarrow> jsstring \<Rightarrow> jsstring \<Rightarrow> xml"
where
  "envelope_document u p f l s =
    Element (js ''soapenv:Envelope'')
      [(js ''xmlns:soapenv'', js ''http://schemas.xmlsoap.org/soap/envelope/''),
       (js ''xmlns:tlo'', js ''http://tlo.com/'')]
      [indent 2, Element (js ''soapenv:Header'') [] [],
       indent 2, Element (js ''soapenv:Body'') []
         [indent 4, Element (js ''tlo:PersonSearch'') []
            [indent 6, Element (js ''tlo:genericSearchInput'') []
               [indent 8, leaf (js ''tlo:Username'') u,
                indent 8, leaf (js ''tlo:Password'') p,
                indent 8, leaf (js ''tlo:DPPAPurpose'') (js ''0''),
                indent 8, leaf (js ''tlo:GLBPurpose'') (js ''0''),
                indent 8, leaf (js ''tlo:NumberOfRecords'') (js ''25''),
                indent 8, leaf (js ''tlo:StartingRecord'') (js ''1''),
                indent 8, Element (js ''tlo:Name'') []
                  [indent 10, leaf (js ''tlo:FirstName'') f,
                   indent 10, leaf (js ''tlo:LastName'') l,
                   indent 8],
                indent 8, leaf (js ''tlo:SSN'') s,
                indent 6],
             indent 4],
          indent 2],
       indent 0]"

text \<open>What \<^verbatim>\<open>String(v)\<close> gives for a configured credential.\<close>

definition credential :: "jsstring option \<Rightarrow> jsstring" where
  "credential x = (case x of None \<Rightarrow> js ''undefined'' | Some s \<Rightarrow> s)"

subsection \<open>Example data\<close>

text \<open>
  A configuration, a request, upstream bodies and a runtime for the examples. The tables
  of the runtime list what xml2js and the built-ins return on the inputs of the examples
  (a body that is empty resolves to \<^verbatim>\<open>null\<close>, an element without content is the empty
  string, an element with an attribute is an object with the members \<^verbatim>\<open>_\<close> and \<^verbatim>\<open>$\<close>, text
  before the first tag is rejected by the strict parser; the objects of the parser are
  taken to have no prototype, so that converting one to a primitive value is a
  TypeError); outside the tables the entries are placeholders.
\<close>

definition example_env :: "string \<Rightarrow> jsstring option" where
  "example_env =
     [''SHARED_SECRET'' \<mapsto> js ''s3cret'', ''TLO_USERNAME'' \<mapsto> js ''acct'',
      ''TLO_PASSWORD'' \<mapsto> js ''pw&1'']"

definition example_request :: request where
  "example_request =
    \<lparr> header = [''x-shared-secret'' \<mapsto> js ''s3cret''],
      body = Obj [(''firstName'', Str (js ''Ann'')), (''lastName'', Str (js ''Lee'')),
                  (''ssn'', Str (js ''123456789''))] \<rparr>"

definition example_soap :: jsstring where
  "example_soap =
     envelope (js ''acct'') (js ''pw&amp;1'') (js ''Ann'') (js ''Lee'') (js ''123456789'')"

definition soap_response :: "string \<Rightarrow> jsstring" where
  "soap_response inner =
     js (''<soap:Envelope><soap:Body><PersonSearchResponse><PersonSearchResult>'' @ inner @
         ''</PersonSearchResult></PersonSearchResponse></soap:Body></soap:Envelope>'')"

definition parsed_response :: "jsval \<Rightarrow> jsval" where
  "parsed_response result =
     Obj [(''soap:Envelope'', Obj [(''soap:Body'',
       Obj [(''PersonSearchResponse'', Obj [(''PersonSearchResult'', result)])])])]"

definition body_found :: jsstring where
  "body_found = soap_response
     ''<ErrorCode>0</ErrorCode><TransactionId>T-1</TransactionId><NumberOfRecordsFound>3</NumberOfRecordsFound>''"

definition body_error12 :: jsstring where
  "body_error12 = soap_response
     ''<ErrorCode>12</ErrorCode><ErrorMessage>No records</ErrorMessage>''"

definition body_empty_code :: jsstring where
  "body_empty_code = soap_response
     ''<ErrorCode></ErrorCode><TransactionId>T-2</TransactionId><NumberOfRecordsFound>1</NumberOfRecordsFound>''"

definition body_no_count :: jsstring where
  "body_no_count = soap_response ''<ErrorCode>0</ErrorCode><TransactionId>T-3</TransactionId>''"

definition body_empty_count :: jsstring where
  "body_empty_count = soap_response
     ''<ErrorCode>0</ErrorCode><TransactionId>T-4</TransactionId><NumberOfRecordsFound></NumberOfRecordsFound>''"

definition body_count_attribute :: jsstring where
  \<open>body_count_attribute = soap_response
     ''<ErrorCode>0</ErrorCode><TransactionId>T-5</TransactionId><NumberOfRecordsFound unit="x">3</NumberOfRecordsFound>''\<close>

definition body_html :: jsstring where
  "body_html = js ''<html><body>Bad Gateway</body></html>''"

definition not_xml_message :: jsstring where
  "not_xml_message =
     js ''Non-whitespace before first tag.'' @ nl @ js ''Line: 0'' @ nl @ js ''Column: 1'' @ nl @
     js ''Char: n''"

definition xml2js_table :: "(jsstring \<times> (jsstring + jsval)) list" where
  "xml2js_table =
    [(body_found, Inr (parsed_response (Obj [(''ErrorCode'', Str (js ''0'')),
        (''TransactionId'', Str (js ''T-1'')), (''NumberOfRecordsFound'', Str (js ''3''))]))),
     (body_error12, Inr (parsed_response (Obj [(''ErrorCode'', Str (js ''12'')),
        (''ErrorMessage'', Str (js ''No records''))]))),
     (body_empty_code, Inr (parsed_response (Obj [(''ErrorCode'', Str (js '''')),
        (''TransactionId'', Str (js ''T-2'')), (''NumberOfRecordsFound'', Str (js ''1''))]))),
     (body_no_count, Inr (parsed_response (Obj [(''ErrorCode'', Str (js ''0'')),
        (''TransactionId'', Str (js ''T-3''))]))),
     (body_empty_count, Inr (parsed_response (Obj [(''ErrorCode'', Str (js ''0'')),
        (''TransactionId'', Str (js ''T-4'')), (''NumberOfRecordsFound'', Str (js ''''))]))),
     (body_count_attribute, Inr (parsed_response (Obj [(''ErrorCode'', Str (js ''0'')),
        (''TransactionId'', Str (js ''T-5'')),
        (''NumberOfRecordsFound'',
           Obj [(''_'', Str (js ''3'')), (''$'', Obj [(''unit'', Str (js ''x''))])])]))),
     (body_html, Inr (Obj [(''html'', Obj [(''body'', Str (js ''Bad Gateway''))])])),
     ([], Inr Null),
     (js ''not xml'', Inl not_xml_message)]"

definition example_runtime :: runtime where
  "example_runtime =
    \<lparr> parseStringPromise =
        (\<lambda>raw. case map_of xml2js_table raw of
                  Some r \<Rightarrow> r
                | None \<Rightarrow> Inl (js ''(not in the table)'')),
      ObjectToString = (\<lambda>v. Inl (js ''Cannot convert object to primitive value'')),
      NumberToString =
        (\<lambda>q. if q = 0 then js ''0'' else if q = 5 then js ''5'' else js ''(not in the table)''),
      StringToNumber =
        (\<lambda>s. if s = js ''3'' then Finite 3 else if s = js ''1'' then Finite 1 else NaN),
      now = (\<lambda>k. js ''2024-05-01T10:00:00.000Z'') \<rparr>"

definition net_refused :: "nat \<Rightarrow> outbound \<Rightarrow> net_event list" where
  "net_refused k rq = [ReqError (js ''connect ECONNREFUSED 10.0.0.1:443'')]"

definition net_answers :: "jsstring \<Rightarrow> nat \<Rightarrow> outbound \<Rightarrow> net_event list" where
  "net_answers raw k rq = [Response 200, Data raw, End]"

definition net_silent :: "nat \<Rightarrow> outbound \<Rightarrow> net_event list" where
  "net_silent k rq = [ReqTimeout]"

definition net_not_xml_then_found :: "nat \<Rightarrow> outbound \<Rightarrow> net_event list" where
  "net_not_xml_then_found k rq =
     (if k = 1 then [Response 200, Data (js ''not xml''), End] else [Response 200, Data body_found, End])"

definition request_with :: "jsval \<Rightarrow> request" where
  "request_with b = \<lparr>header = [''x-shared-secret'' \<mapsto> js ''s3cret''], body = b\<rparr>"

definition other_env :: "string \<Rightarrow> jsstring option" where
  "other_env =
     [''SHARED_SECRET'' \<mapsto> js ''t0ken'', ''TLO_USERNAME'' \<mapsto> js ''second<acct>'',
      ''TLO_PASSWORD'' \<mapsto> js ''hunter2'']"

definition other_request :: request where
  "other_request = example_request\<lparr>header := [''x-shared-secret'' \<mapsto> js ''t0ken'']\<rparr>"
section \<open>Properties\<close>

subsection \<open>String literals\<close>

lemma cu_eq [simp]: "cu a = cu b \<longleftrightarrow> a = b"
  by (simp add: cu_def)

lemma js_eq [simp]: "js a = js b \<longleftrightarrow> a = b"
  by (simp add: js_def inj_map_eq_map inj_on_def)

lemma js_Nil [simp]: "js [] = []" "js s = [] \<longleftrightarrow> s = []" "[] = js s \<longleftrightarrow> s = []"
  by (auto simp: js_def)

lemma js_Cons: "js (c # s) = cu c # js s"
  by (simp add: js_def)

lemma js_append: "js (a @ b) = js a @ js b"
  by (simp add: js_def)

lemma js_take [simp]: "take n (js s) = js (take n s)"
  by (simp add: js_def take_map)

lemma cu_less: "cu c < 256"
  by (simp add: cu_def)

subsection \<open>xmlEscape\<close>

lemma replace_all_Cons:
  "replace_all c r (x # xs) = (if x = c then r else [x]) @ replace_all c r xs"
  by (simp add: replace_all_def)

lemma replace_all_append:
  "replace_all c r (xs @ ys) = replace_all c r xs @ replace_all c r ys"
  by (simp add: replace_all_def)

lemma replace_all_Nil: "replace_all c r [] = []"
  by (simp add: replace_all_def)

lemma escape5_Nil: "escape5 [] = []"
  by (simp add: escape5_def replace_all_Nil)

text \<open>
  The five replacements in the order of the source amount to one pass: the ampersands
  that the later replacements write are not seen by the first.
\<close>

lemma escape5_Cons: "escape5 (c # s) = esc1 c @ escape5 s"
  by (simp add: escape5_def esc1_def js_Cons replace_all_Cons replace_all_append replace_all_Nil)

lemma escape5_concat: "escape5 s = concat (map esc1 s)"
  by (induction s) (simp_all add: escape5_Nil escape5_Cons)

subsection \<open>The loop with the configured budget\<close>

lemma RETRIES_CONFIG: "RETRIES (CONFIG env) = 2"
  by (simp add: CONFIG_def)

text \<open>With \<^verbatim>\<open>RETRIES: 2\<close> the loop is three nested attempts.\<close>

lemma attempts_unrolled:
  assumes "RETRIES cfg = 2"
  shows "attempts rt cfg net soap 1 =
    (case try_block rt cfg (net 1) soap of
       None \<Rightarrow> \<lparr>trace = [OutboundCall (request_of cfg soap)], ending = Hangs\<rparr>
     | Some (Inr (st, j)) \<Rightarrow>
         \<lparr>trace = [OutboundCall (request_of cfg soap), Respond st j], ending = Returned\<rparr>
     | Some (Inl m1) \<Rightarrow>
        prepend [OutboundCall (request_of cfg soap), attempt_failed rt 1 m1]
        (case try_block rt cfg (net 2) soap of
           None \<Rightarrow> \<lparr>trace = [OutboundCall (request_of cfg soap)], ending = Hangs\<rparr>
         | Some (Inr (st, j)) \<Rightarrow>
             \<lparr>trace = [OutboundCall (request_of cfg soap), Respond st j], ending = Returned\<rparr>
         | Some (Inl m2) \<Rightarrow>
            prepend [OutboundCall (request_of cfg soap), attempt_failed rt 2 m2]
            (case try_block rt cfg (net 3) soap of
               None \<Rightarrow> \<lparr>trace = [OutboundCall (request_of cfg soap)], ending = Hangs\<rparr>
             | Some (Inr (st, j)) \<Rightarrow>
                 \<lparr>trace = [OutboundCall (request_of cfg soap), Respond st j], ending = Returned\<rparr>
             | Some (Inl m3) \<Rightarrow>
                 \<lparr>trace = [OutboundCall (request_of cfg soap), attempt_failed rt 3 m3,
                            timeout_response],
                  ending = Returned\<rparr>)))"
proof -
  have a3: "attempts rt cfg net soap 3 =
     (case try_block rt cfg (net 3) soap of
        None \<Rightarrow> \<lparr>trace = [OutboundCall (request_of cfg soap)], ending = Hangs\<rparr>
      | Some (Inr (st, j)) \<Rightarrow>
          \<lparr>trace = [OutboundCall (request_of cfg soap), Respond st j], ending = Returned\<rparr>
      | Some (Inl m3) \<Rightarrow>
          \<lparr>trace = [OutboundCall (request_of cfg soap), attempt_failed rt 3 m3,
                     timeout_response],
           ending = Returned\<rparr>)"
    using assms by (subst attempts.simps) (simp split: option.splits sum.splits)
  have a2: "attempts rt cfg net soap 2 =
     (case try_block rt cfg (net 2) soap of
        None \<Rightarrow> \<lparr>trace = [OutboundCall (request_of cfg soap)], ending = Hangs\<rparr>
      | Some (Inr (st, j)) \<Rightarrow>
          \<lparr>trace = [OutboundCall (request_of cfg soap), Respond st j], ending = Returned\<rparr>
      | Some (Inl m2) \<Rightarrow>
          prepend [OutboundCall (request_of cfg soap), attempt_failed rt 2 m2]
            (attempts rt cfg net soap 3))"
    using assms by (subst attempts.simps) (simp split: option.splits sum.splits)
  have a1: "attempts rt cfg net soap 1 =
     (case try_block rt cfg (net 1) soap of
        None \<Rightarrow> \<lparr>trace = [OutboundCall (request_of cfg soap)], ending = Hangs\<rparr>
      | Some (Inr (st, j)) \<Rightarrow>
          \<lparr>trace = [OutboundCall (request_of cfg soap), Respond st j], ending = Returned\<rparr>
      | Some (Inl m1) \<Rightarrow>
          prepend [OutboundCall (request_of cfg soap), attempt_failed rt 1 m1]
            (attempts rt cfg net soap 2))"
    using assms
    by (subst attempts.simps)
       (simp del: One_nat_def add: one_add_one split: option.splits sum.splits)
  show ?thesis unfolding a1 a2 a3 ..
qed

text \<open>An iteration whose \<^verbatim>\<open>try\<close> block reaches a \<^verbatim>\<open>return\<close> ends the run with that response.\<close>

lemma attempt_responds:
  assumes "k \<le> RETRIES cfg + 1" and "try_block rt cfg (net k) soap = Some (Inr (st, j))"
  shows "attempts rt cfg net soap k =
           \<lparr>trace = [OutboundCall (request_of cfg soap), Respond st j], ending = Returned\<rparr>"
  using assms by (subst attempts.simps) simp

lemma get_or_empty: "get (if truthy v then v else Obj []) k = get v k"
  by (cases v) auto

lemma query_of_fields:
  "firstName (query_of req) = get (body req) ''firstName''"
  "lastName (query_of req) = get (body req) ''lastName''"
  "ssn (query_of req) = get (body req) ''ssn''"
  by (simp_all add: query_of_def Let_def get_or_empty)

lemma person_search_valid:
  assumes "header req ''x-shared-secret'' = SHARED_SECRET cfg"
    and "truthy (firstName (query_of req))" "truthy (lastName (query_of req))"
        "truthy (ssn (query_of req))"
    and "buildSoap rt cfg (query_of req) = Inr soap"
  shows "person_search rt cfg net req = attempts rt cfg net soap 1"
  using assms by (simp add: person_search_def Let_def)

lemma try_body_status: "try_body rt raw = Inr (st, j) \<Longrightarrow> st = 502 \<or> st = 200"
  by (auto simp: try_body_def Let_def split: sum.splits if_splits)

lemma try_block_status:
  "try_block rt cfg n soap = Some (Inr (st, j)) \<Longrightarrow> st = 502 \<or> st = 200"
  by (auto simp: try_block_def split: promise.splits dest: try_body_status)

lemma attempts_never_400:
  assumes "RETRIES cfg = 2"
  shows "(400, j) \<notin> set (responses (attempts rt cfg net soap 1))"
proof -
  have s: "\<And>n st j'. try_block rt cfg n soap = Some (Inr (st, j')) \<Longrightarrow> st \<noteq> 400"
    using try_block_status by fastforce
  show ?thesis
    unfolding attempts_unrolled [OF assms]
    by (auto simp: responses_def prepend_def attempt_failed_def timeout_response_def
          split: option.splits sum.splits dest: s)
qed

subsection \<open>The examples, evaluated\<close>

lemma callTlo_refused:
  "callTlo cfg (net_refused k) soap = Rejected (js ''connect ECONNREFUSED 10.0.0.1:443'')"
  by (simp add: callTlo_def net_refused_def settle_def)

lemma callTlo_answers: "callTlo cfg (net_answers raw k) soap = Resolved 200 raw"
  by (simp add: callTlo_def net_answers_def settle_def)

lemma callTlo_silent: "callTlo cfg (net_silent k) soap = Pending"
  by (simp add: callTlo_def net_silent_def)

lemma example_auth:
  "header example_request ''x-shared-secret'' = SHARED_SECRET (CONFIG example_env)"
  by (simp add: example_request_def CONFIG_def example_env_def)

lemma request_with_auth:
  "header (request_with b) ''x-shared-secret'' = SHARED_SECRET (CONFIG example_env)"
  by (simp add: request_with_def CONFIG_def example_env_def)

lemma example_query:
  "query_of example_request =
     \<lparr>firstName = Str (js ''Ann''), lastName = Str (js ''Lee''), ssn = Str (js ''123456789'')\<rparr>"
  by (simp add: query_of_def example_request_def)

lemma example_escapes:
  "escape5 (js ''acct'') = js ''acct''" "escape5 (js ''pw&1'') = js ''pw&amp;1''"
  "escape5 (js ''Ann'') = js ''Ann''" "escape5 (js ''Lee'') = js ''Lee''"
  "escape5 (js ''123456789'') = js ''123456789''" "escape5 (js ''true'') = js ''true''"
  by (simp_all add: js_Cons escape5_Cons escape5_Nil esc1_def)

lemma example_buildSoap:
  "buildSoap rt (CONFIG example_env) (query_of example_request) = Inr example_soap"
  by (simp add: example_query buildSoap_def xmlEscape_def env_value_def CONFIG_def example_env_def
        example_escapes example_soap_def)

lemma example_valid:
  "truthy (firstName (query_of example_request))"
  "truthy (lastName (query_of example_request))"
  "truthy (ssn (query_of example_request))"
  by (simp_all add: example_query)

lemma example_person_search:
  "person_search rt (CONFIG example_env) net example_request =
     attempts rt (CONFIG example_env) net example_soap 1"
  by (rule person_search_valid [OF example_auth example_valid example_buildSoap])

lemmas example_bodies =
  body_found_def body_error12_def body_empty_code_def body_no_count_def body_empty_count_def
  body_count_attribute_def body_html_def soap_response_def

lemma parse_found:
  "parseStringPromise example_runtime body_found =
     Inr (parsed_response (Obj [(''ErrorCode'', Str (js ''0'')), (''TransactionId'', Str (js ''T-1'')),
                                (''NumberOfRecordsFound'', Str (js ''3''))]))"
  by (simp add: example_runtime_def xml2js_table_def)

lemma parse_error12:
  "parseStringPromise example_runtime body_error12 =
     Inr (parsed_response (Obj [(''ErrorCode'', Str (js ''12'')),
                                (''ErrorMessage'', Str (js ''No records''))]))"
  by (simp add: example_runtime_def xml2js_table_def example_bodies)

lemma parse_empty_code:
  "parseStringPromise example_runtime body_empty_code =
     Inr (parsed_response (Obj [(''ErrorCode'', Str []), (''TransactionId'', Str (js ''T-2'')),
                                (''NumberOfRecordsFound'', Str (js ''1''))]))"
  by (simp add: example_runtime_def xml2js_table_def example_bodies)



lemma parse_count_attribute:
  "parseStringPromise example_runtime body_count_attribute =
     Inr (parsed_response (Obj [(''ErrorCode'', Str (js ''0'')), (''TransactionId'', Str (js ''T-5'')),
            (''NumberOfRecordsFound'',
               Obj [(''_'', Str (js ''3'')), (''$'', Obj [(''unit'', Str (js ''x''))])])]))"
  by (simp add: example_runtime_def xml2js_table_def example_bodies)

lemma parse_html:
  "parseStringPromise example_runtime body_html =
     Inr (Obj [(''html'', Obj [(''body'', Str (js ''Bad Gateway''))])])"
  by (simp add: example_runtime_def xml2js_table_def example_bodies)

lemma parse_not_xml: "parseStringPromise example_runtime (js ''not xml'') = Inl not_xml_message"
  by (simp add: example_runtime_def xml2js_table_def example_bodies)

lemma example_now: "now example_runtime k = js ''2024-05-01T10:00:00.000Z''"
  by (simp add: example_runtime_def)

lemma result_node_parsed_response: "result_node (parsed_response r) = r"
  by (simp add: result_node_def parsed_response_def opt_get_def)

lemma try_body_found:
  "try_body example_runtime body_found =
     Inr (200, Obj [(''ok'', Bool True), (''transactionId'', Str (js ''T-1'')),
                    (''recordsFound'', Num (Finite 3)),
                    (''data'', Obj [(''ErrorCode'', Str (js ''0'')), (''TransactionId'', Str (js ''T-1'')),
                                    (''NumberOfRecordsFound'', Str (js ''3''))])])"
  by (simp add: try_body_def parse_found result_node_parsed_response)
     (simp add: example_runtime_def read_number_def)

lemma try_body_not_xml: "try_body example_runtime (js ''not xml'') = Inl not_xml_message"
  by (simp add: try_body_def parse_not_xml)

subsection \<open>Authentication\<close>

text \<open>
  C6. A request whose \<^verbatim>\<open>x-shared-secret\<close> header differs from the configured secret (an
  empty or a missing header included) is answered 401 with
  \<^verbatim>\<open>{ok: false, error: "UNAUTHORIZED"}\<close>, and that response is all the handler does: no
  outbound call is made and nothing is logged.
\<close>

theorem unauthorized_401:
  assumes "header req ''x-shared-secret'' \<noteq> SHARED_SECRET cfg"
  shows "person_search rt cfg net req =
           \<lparr>trace = [Respond 401 (Obj [(''ok'', Bool False), (''error'', Str (js ''UNAUTHORIZED''))])],
            ending = Returned\<rparr>
         \<and> calls (person_search rt cfg net req) = []"
  using assms by (simp add: person_search_def calls_def)

text \<open>The example request without its header, and with an empty one.\<close>

theorem unauthorized_401_witness:
  "header (example_request\<lparr>header := Map.empty\<rparr>) ''x-shared-secret''
     \<noteq> SHARED_SECRET (CONFIG example_env)
   \<and> person_search example_runtime (CONFIG example_env) (net_answers body_found)
         (example_request\<lparr>header := Map.empty\<rparr>) =
           \<lparr>trace = [Respond 401 (Obj [(''ok'', Bool False), (''error'', Str (js ''UNAUTHORIZED''))])],
            ending = Returned\<rparr>
   \<and> calls (person_search example_runtime (CONFIG example_env) (net_answers body_found)
         (example_request\<lparr>header := Map.empty\<rparr>)) = []"
proof -
  have h: "header (example_request\<lparr>header := Map.empty\<rparr>) ''x-shared-secret''
             \<noteq> SHARED_SECRET (CONFIG example_env)"
    by (simp add: CONFIG_def example_env_def)
  show ?thesis
    by (rule conjI [OF h unauthorized_401 [OF h]])
qed

subsection \<open>Validation\<close>

text \<open>
  C7, as stated: a request in which one of the three fields is not a non-empty string is
  rejected with 400 and makes no upstream call. The check is \<^verbatim>\<open>!firstName\<close>, a test of
  truthiness, and \<^verbatim>\<open>xmlEscape\<close> converts with \<^verbatim>\<open>String(v)\<close>: the body
  \<^verbatim>\<open>{"firstName": true, "lastName": "Lee", "ssn": "123456789"}\<close> passes, the envelope is
  built with the first name \<^verbatim>\<open>true\<close> and sent, and the caller gets the search result.
\<close>

theorem non_string_field_not_rejected:
  "get (Obj [(''firstName'', Bool True), (''lastName'', Str (js ''Lee'')),
             (''ssn'', Str (js ''123456789''))]) ''firstName'' = Bool True
   \<and> person_search example_runtime (CONFIG example_env) (net_answers body_found)
       (request_with (Obj [(''firstName'', Bool True), (''lastName'', Str (js ''Lee'')),
                           (''ssn'', Str (js ''123456789''))])) =
     \<lparr>trace =
        [OutboundCall (request_of (CONFIG example_env)
                         (envelope (js ''acct'') (js ''pw&amp;1'') (js ''true'') (js ''Lee'') (js ''123456789''))),
         Respond 200
           (Obj [(''ok'', Bool True), (''transactionId'', Str (js ''T-1'')),
                 (''recordsFound'', Num (Finite 3)),
                 (''data'', Obj [(''ErrorCode'', Str (js ''0'')), (''TransactionId'', Str (js ''T-1'')),
                                 (''NumberOfRecordsFound'', Str (js ''3''))])])],
      ending = Returned\<rparr>"
proof -
  let ?b = "Obj [(''firstName'', Bool True), (''lastName'', Str (js ''Lee'')),
                 (''ssn'', Str (js ''123456789''))]"
  let ?soap = "envelope (js ''acct'') (js ''pw&amp;1'') (js ''true'') (js ''Lee'') (js ''123456789'')"
  have q: "query_of (request_with ?b) =
             \<lparr>firstName = Bool True, lastName = Str (js ''Lee''), ssn = Str (js ''123456789'')\<rparr>"
    by (simp add: query_of_def request_with_def)
  have soap: "buildSoap example_runtime (CONFIG example_env) (query_of (request_with ?b)) =
                Inr ?soap"
    by (simp add: q buildSoap_def xmlEscape_def env_value_def CONFIG_def example_env_def
          example_escapes)
  have "person_search example_runtime (CONFIG example_env) (net_answers body_found)
          (request_with ?b) =
        attempts example_runtime (CONFIG example_env) (net_answers body_found) ?soap 1"
    by (rule person_search_valid [OF request_with_auth _ _ _ soap]) (simp_all add: q)
  also have "\<dots> =
     \<lparr>trace =
        [OutboundCall (request_of (CONFIG example_env) ?soap),
         Respond 200
           (Obj [(''ok'', Bool True), (''transactionId'', Str (js ''T-1'')),
                 (''recordsFound'', Num (Finite 3)),
                 (''data'', Obj [(''ErrorCode'', Str (js ''0'')), (''TransactionId'', Str (js ''T-1'')),
                                 (''NumberOfRecordsFound'', Str (js ''3''))])])],
      ending = Returned\<rparr>"
    by (rule attempt_responds)
       (simp_all add: RETRIES_CONFIG try_block_def callTlo_answers try_body_found)
  finally show ?thesis by simp
qed

text \<open>
  C7, amended: for an authenticated request, validation tests truthiness. If one of
  \<^verbatim>\<open>firstName\<close>, \<^verbatim>\<open>lastName\<close>, \<^verbatim>\<open>ssn\<close> is absent or falsy (\<^verbatim>\<open>null\<close>, \<^verbatim>\<open>false\<close>, \<^verbatim>\<open>0\<close>, the empty
  string) the handler answers 400 with \<^verbatim>\<open>{ok: false, error: "INVALID_INPUT"}\<close> and makes no
  upstream call; if all three are truthy, whatever their type, it never answers with
  that rejection.
\<close>

theorem invalid_input_400:
  assumes "header req ''x-shared-secret'' = SHARED_SECRET (CONFIG env)"
  shows "(\<not> truthy (get (body req) ''firstName'') \<or> \<not> truthy (get (body req) ''lastName'')
            \<or> \<not> truthy (get (body req) ''ssn'')
          \<longrightarrow> person_search rt (CONFIG env) net req =
                \<lparr>trace = [Respond 400 (Obj [(''ok'', Bool False),
                                             (''error'', Str (js ''INVALID_INPUT''))])],
                 ending = Returned\<rparr>
              \<and> calls (person_search rt (CONFIG env) net req) = [])
       \<and> (truthy (get (body req) ''firstName'') \<and> truthy (get (body req) ''lastName'')
            \<and> truthy (get (body req) ''ssn'')
          \<longrightarrow> (400, Obj [(''ok'', Bool False), (''error'', Str (js ''INVALID_INPUT''))])
                \<notin> set (responses (person_search rt (CONFIG env) net req)))"
proof (intro conjI impI)
  assume bad: "\<not> truthy (get (body req) ''firstName'') \<or> \<not> truthy (get (body req) ''lastName'')
            \<or> \<not> truthy (get (body req) ''ssn'')"
  then show "person_search rt (CONFIG env) net req =
                \<lparr>trace = [Respond 400 (Obj [(''ok'', Bool False),
                                             (''error'', Str (js ''INVALID_INPUT''))])],
                 ending = Returned\<rparr>"
    using assms by (auto simp: person_search_def Let_def query_of_fields)
  then show "calls (person_search rt (CONFIG env) net req) = []"
    by (simp add: calls_def)
next
  assume ok: "truthy (get (body req) ''firstName'') \<and> truthy (get (body req) ''lastName'')
            \<and> truthy (get (body req) ''ssn'')"
  show "(400, Obj [(''ok'', Bool False), (''error'', Str (js ''INVALID_INPUT''))])
                \<notin> set (responses (person_search rt (CONFIG env) net req))"
  proof (cases "buildSoap rt (CONFIG env) (query_of req)")
    case (Inl e)
    then show ?thesis
      using assms ok by (simp add: person_search_def Let_def query_of_fields responses_def)
  next
    case (Inr soap)
    have "person_search rt (CONFIG env) net req = attempts rt (CONFIG env) net soap 1"
      using assms ok Inr by (intro person_search_valid) (simp_all add: query_of_fields)
    then show ?thesis
      using attempts_never_400 [OF RETRIES_CONFIG] by simp
  qed
qed

text \<open>
  A body without \<^verbatim>\<open>ssn\<close> is rejected before any call; the example request, with three
  non-empty strings, is not.
\<close>

theorem invalid_input_400_witness:
  "(person_search example_runtime (CONFIG example_env) (net_answers body_found)
      (request_with (Obj [(''firstName'', Str (js ''Ann'')), (''lastName'', Str (js ''Lee''))])) =
      \<lparr>trace = [Respond 400 (Obj [(''ok'', Bool False), (''error'', Str (js ''INVALID_INPUT''))])],
       ending = Returned\<rparr>
    \<and> calls (person_search example_runtime (CONFIG example_env) (net_answers body_found)
        (request_with (Obj [(''firstName'', Str (js ''Ann'')), (''lastName'', Str (js ''Lee''))]))) = [])
   \<and> (400, Obj [(''ok'', Bool False), (''error'', Str (js ''INVALID_INPUT''))])
       \<notin> set (responses (person_search example_runtime (CONFIG example_env)
                 (net_answers body_found) example_request))"
proof -
  have a: "\<not> truthy (get (body (request_with (Obj [(''firstName'', Str (js ''Ann'')),
              (''lastName'', Str (js ''Lee''))]))) ''ssn'')"
    by (simp add: request_with_def)
  have b: "truthy (get (body example_request) ''firstName'')
           \<and> truthy (get (body example_request) ''lastName'')
           \<and> truthy (get (body example_request) ''ssn'')"
    by (simp add: example_request_def)
  show ?thesis
    using a b
      invalid_input_400 [OF request_with_auth, of _ example_runtime "net_answers body_found"]
      invalid_input_400 [OF example_auth, of example_runtime "net_answers body_found"]
    by blast
qed

subsection \<open>Retry exhaustion\<close>

text \<open>
  C5. For an authenticated request that passes validation, if the promise of \<^verbatim>\<open>callTlo\<close> is
  rejected on each of the three attempts (one initial, two retries), the run is: call,
  log line of attempt 1, call, log line of attempt 2, call, log line of attempt 3, and
  then the single response 504 \<^verbatim>\<open>{ok: false, error: "TLO_TIMEOUT"}\<close>. The log line of
  attempt \<open>k\<close> is \<^verbatim>\<open>{ts, level: "warn", msg: "tlo_attempt_failed", attempt: k, err}\<close> with the
  message of the rejection of that attempt. Each failure is logged before the next call,
  the last one before the response.
\<close>

theorem retries_exhausted_504:
  assumes "header req ''x-shared-secret'' = SHARED_SECRET (CONFIG env)"
    and "truthy (firstName (query_of req))" "truthy (lastName (query_of req))"
        "truthy (ssn (query_of req))"
    and "buildSoap rt (CONFIG env) (query_of req) = Inr soap"
    and "callTlo (CONFIG env) (net 1) soap = Rejected m1"
    and "callTlo (CONFIG env) (net 2) soap = Rejected m2"
    and "callTlo (CONFIG env) (net 3) soap = Rejected m3"
  shows "person_search rt (CONFIG env) net req =
           \<lparr>trace =
              [OutboundCall (request_of (CONFIG env) soap),
               Logged (Obj [(''ts'', Str (now rt 1)), (''level'', Str (js ''warn'')),
                            (''msg'', Str (js ''tlo_attempt_failed'')),
                            (''attempt'', Num (Finite 1)), (''err'', Str m1)]),
               OutboundCall (request_of (CONFIG env) soap),
               Logged (Obj [(''ts'', Str (now rt 2)), (''level'', Str (js ''warn'')),
                            (''msg'', Str (js ''tlo_attempt_failed'')),
                            (''attempt'', Num (Finite 2)), (''err'', Str m2)]),
               OutboundCall (request_of (CONFIG env) soap),
               Logged (Obj [(''ts'', Str (now rt 3)), (''level'', Str (js ''warn'')),
                            (''msg'', Str (js ''tlo_attempt_failed'')),
                            (''attempt'', Num (Finite 3)), (''err'', Str m3)]),
               Respond 504 (Obj [(''ok'', Bool False), (''error'', Str (js ''TLO_TIMEOUT''))])],
            ending = Returned\<rparr>"
proof -
  have "person_search rt (CONFIG env) net req = attempts rt (CONFIG env) net soap 1"
    using assms(1-5) by (rule person_search_valid)
  also have "\<dots> =
           \<lparr>trace = [OutboundCall (request_of (CONFIG env) soap), attempt_failed rt 1 m1,
                     OutboundCall (request_of (CONFIG env) soap), attempt_failed rt 2 m2,
                     OutboundCall (request_of (CONFIG env) soap), attempt_failed rt 3 m3,
                     timeout_response],
            ending = Returned\<rparr>"
    using assms(6-8)
    by (simp del: One_nat_def add: attempts_unrolled [OF RETRIES_CONFIG] try_block_def
          prepend_def)
  finally show ?thesis
    by (simp add: attempt_failed_def log_js_def timeout_response_def)
qed

text \<open>The example request against an upstream that refuses every connection.\<close>

theorem retries_exhausted_504_witness:
  "person_search example_runtime (CONFIG example_env) net_refused example_request =
     \<lparr>trace =
        [OutboundCall (request_of (CONFIG example_env) example_soap),
         Logged (Obj [(''ts'', Str (js ''2024-05-01T10:00:00.000Z'')),
                      (''level'', Str (js ''warn'')), (''msg'', Str (js ''tlo_attempt_failed'')),
                      (''attempt'', Num (Finite 1)),
                      (''err'', Str (js ''connect ECONNREFUSED 10.0.0.1:443''))]),
         OutboundCall (request_of (CONFIG example_env) example_soap),
         Logged (Obj [(''ts'', Str (js ''2024-05-01T10:00:00.000Z'')),
                      (''level'', Str (js ''warn'')), (''msg'', Str (js ''tlo_attempt_failed'')),
                      (''attempt'', Num (Finite 2)),
                      (''err'', Str (js ''connect ECONNREFUSED 10.0.0.1:443''))]),
         OutboundCall (request_of (CONFIG example_env) example_soap),
         Logged (Obj [(''ts'', Str (js ''2024-05-01T10:00:00.000Z'')),
                      (''level'', Str (js ''warn'')), (''msg'', Str (js ''tlo_attempt_failed'')),
                      (''attempt'', Num (Finite 3)),
                      (''err'', Str (js ''connect ECONNREFUSED 10.0.0.1:443''))]),
         Respond 504 (Obj [(''ok'', Bool False), (''error'', Str (js ''TLO_TIMEOUT''))])],
      ending = Returned\<rparr>"
  using retries_exhausted_504 [of example_request example_env example_runtime example_soap
      net_refused, OF example_auth example_valid example_buildSoap
      callTlo_refused callTlo_refused callTlo_refused]
  by (simp add: example_now)

subsection \<open>Classification of a completed exchange\<close>

text \<open>
  When the call of iteration \<open>k\<close> completes and xml2js resolves, the handler answers from
  that body. The result node that is absent or falsy gives 502 with the first 500 code
  units of the body.
\<close>

lemma no_result_node_502:
  assumes "k \<le> RETRIES cfg + 1"
    and "callTlo cfg (net k) soap = Resolved st raw"
    and "parseStringPromise rt raw = Inr parsed"
    and "\<not> truthy (result_node parsed)"
  shows "attempts rt cfg net soap k =
           \<lparr>trace = [OutboundCall (request_of cfg soap),
                     Respond 502 (Obj [(''ok'', Bool False), (''error'', Str (js ''SOAP_PARSE_FAILED'')),
                                       (''rawStart'', Str (take 500 raw))])],
            ending = Returned\<rparr>"
    and "length (take 500 raw) \<le> 500" and "prefix (take 500 raw) raw"
  using assms
  by (simp_all add: attempt_responds try_block_def try_body_def Let_def take_is_prefix)

lemma no_result_node_502_examples:
  "person_search example_runtime (CONFIG example_env) (net_answers body_html) example_request =
     \<lparr>trace = [OutboundCall (request_of (CONFIG example_env) example_soap),
               Respond 502 (Obj [(''ok'', Bool False), (''error'', Str (js ''SOAP_PARSE_FAILED'')),
                                 (''rawStart'', Str body_html)])],
      ending = Returned\<rparr>"
  "person_search example_runtime (CONFIG example_env) (net_answers []) example_request =
     \<lparr>trace = [OutboundCall (request_of (CONFIG example_env) example_soap),
               Respond 502 (Obj [(''ok'', Bool False), (''error'', Str (js ''SOAP_PARSE_FAILED'')),
                                 (''rawStart'', Str [])])],
      ending = Returned\<rparr>"
proof -
  have "take 500 body_html = body_html"
    by (simp add: body_html_def)
  then show "person_search example_runtime (CONFIG example_env) (net_answers body_html)
      example_request =
     \<lparr>trace = [OutboundCall (request_of (CONFIG example_env) example_soap),
               Respond 502 (Obj [(''ok'', Bool False), (''error'', Str (js ''SOAP_PARSE_FAILED'')),
                                 (''rawStart'', Str body_html)])],
      ending = Returned\<rparr>"
    using no_result_node_502(1) [of 1 "CONFIG example_env" "net_answers body_html" example_soap
        200 body_html example_runtime, OF _ callTlo_answers parse_html]
    by (simp add: example_person_search RETRIES_CONFIG result_node_def opt_get_def)
  have e: "parseStringPromise example_runtime [] = Inr Null"
    by (simp add: example_runtime_def xml2js_table_def example_bodies)
  show "person_search example_runtime (CONFIG example_env) (net_answers []) example_request =
     \<lparr>trace = [OutboundCall (request_of (CONFIG example_env) example_soap),
               Respond 502 (Obj [(''ok'', Bool False), (''error'', Str (js ''SOAP_PARSE_FAILED'')),
                                 (''rawStart'', Str [])])],
      ending = Returned\<rparr>"
    using no_result_node_502(1) [of 1 "CONFIG example_env" "net_answers []" example_soap
        200 "[]" example_runtime, OF _ callTlo_answers e]
    by (simp add: example_person_search RETRIES_CONFIG result_node_def opt_get_def)
qed

text \<open>
  C2, at the input where the code departs from it: the upstream completes every exchange
  with status 200 and the body \<^verbatim>\<open>not xml\<close>. The strict parser rejects the body, the
  rejection is thrown inside the \<^verbatim>\<open>try\<close> block and caught by the \<^verbatim>\<open>catch\<close> meant for
  transport failures: the handler calls three times and answers 504 \<^verbatim>\<open>TLO_TIMEOUT\<close>, not
  502 \<^verbatim>\<open>SOAP_PARSE_FAILED\<close>.
\<close>

theorem malformed_body_answered_504:
  "person_search example_runtime (CONFIG example_env) (net_answers (js ''not xml'')) example_request =
     \<lparr>trace = [OutboundCall (request_of (CONFIG example_env) example_soap),
               attempt_failed example_runtime 1 not_xml_message,
               OutboundCall (request_of (CONFIG example_env) example_soap),
               attempt_failed example_runtime 2 not_xml_message,
               OutboundCall (request_of (CONFIG example_env) example_soap),
               attempt_failed example_runtime 3 not_xml_message,
               Respond 504 (Obj [(''ok'', Bool False), (''error'', Str (js ''TLO_TIMEOUT''))])],
      ending = Returned\<rparr>"
  by (simp del: One_nat_def
        add: example_person_search attempts_unrolled [OF RETRIES_CONFIG] try_block_def
          callTlo_answers try_body_not_xml prepend_def timeout_response_def)

text \<open>The caller sees one response, the gateway timeout, after three calls.\<close>

theorem malformed_body_answered_504_witness:
  "responses (person_search example_runtime (CONFIG example_env) (net_answers (js ''not xml''))
      example_request) = [(504, Obj [(''ok'', Bool False), (''error'', Str (js ''TLO_TIMEOUT''))])]
   \<and> length (calls (person_search example_runtime (CONFIG example_env)
        (net_answers (js ''not xml'')) example_request)) = 3"
  using malformed_body_answered_504 by (simp add: responses_def calls_def attempt_failed_def)

text \<open>
  C4, as stated: every error code other than the string \<^verbatim>\<open>"0"\<close> gives the business-error
  response. The guard is \<^verbatim>\<open>result.ErrorCode && result.ErrorCode !== "0"\<close>: an error code
  that is the empty string (the element \<^verbatim>\<open><ErrorCode></ErrorCode>\<close>) is not \<^verbatim>\<open>"0"\<close> and is
  answered as a success.
\<close>

theorem empty_error_code_is_success:
  "get (Obj [(''ErrorCode'', Str []), (''TransactionId'', Str (js ''T-2'')),
             (''NumberOfRecordsFound'', Str (js ''1''))]) ''ErrorCode'' \<noteq> Str (js ''0'')
   \<and> person_search example_runtime (CONFIG example_env) (net_answers body_empty_code)
       example_request =
     \<lparr>trace =
        [OutboundCall (request_of (CONFIG example_env) example_soap),
         Respond 200
           (Obj [(''ok'', Bool True), (''transactionId'', Str (js ''T-2'')),
                 (''recordsFound'', Num (Finite 1)),
                 (''data'', Obj [(''ErrorCode'', Str []), (''TransactionId'', Str (js ''T-2'')),
                                 (''NumberOfRecordsFound'', Str (js ''1''))])])],
      ending = Returned\<rparr>"
proof -
  have "try_body example_runtime body_empty_code =
     Inr (200, Obj [(''ok'', Bool True), (''transactionId'', Str (js ''T-2'')),
                 (''recordsFound'', Num (Finite 1)),
                 (''data'', Obj [(''ErrorCode'', Str []), (''TransactionId'', Str (js ''T-2'')),
                                 (''NumberOfRecordsFound'', Str (js ''1''))])])"
    by (simp add: try_body_def parse_empty_code result_node_parsed_response)
       (simp add: example_runtime_def read_number_def)
  then have "attempts example_runtime (CONFIG example_env) (net_answers body_empty_code)
               example_soap 1 =
     \<lparr>trace =
        [OutboundCall (request_of (CONFIG example_env) example_soap),
         Respond 200
           (Obj [(''ok'', Bool True), (''transactionId'', Str (js ''T-2'')),
                 (''recordsFound'', Num (Finite 1)),
                 (''data'', Obj [(''ErrorCode'', Str []), (''TransactionId'', Str (js ''T-2'')),
                                 (''NumberOfRecordsFound'', Str (js ''1''))])])],
      ending = Returned\<rparr>"
    by (intro attempt_responds) (simp_all add: RETRIES_CONFIG try_block_def callTlo_answers)
  then show ?thesis
    by (simp add: example_person_search)
qed

text \<open>
  C4, amended: for every parsed result node, an error code that is truthy and is not the
  string \<^verbatim>\<open>"0"\<close> gives status 200 with \<^verbatim>\<open>{ok: false, tloError: true}\<close> and the error code and
  error message of the node, unmodified. An error code that is absent or falsy is
  treated as \<^verbatim>\<open>"0"\<close> is: the handler goes on to \<^verbatim>\<open>Number(result.NumberOfRecordsFound)\<close>, and
  when that returns \<open>n\<close> it answers 200 with \<^verbatim>\<open>ok: true\<close>, the transaction id, \<open>n\<close> and the
  node (when it throws, the exception is what the \<^verbatim>\<open>try\<close> block produces).
\<close>

theorem business_error_200:
  assumes "k \<le> RETRIES cfg + 1"
    and "callTlo cfg (net k) soap = Resolved st raw"
    and "parseStringPromise rt raw = Inr parsed"
    and "truthy (result_node parsed)"
  shows "(truthy (get (result_node parsed) ''ErrorCode'')
            \<and> get (result_node parsed) ''ErrorCode'' \<noteq> Str (js ''0'')
          \<longrightarrow> attempts rt cfg net soap k =
                \<lparr>trace =
                   [OutboundCall (request_of cfg soap),
                    Respond 200
                      (Obj [(''ok'', Bool False), (''tloError'', Bool True),
                            (''errorCode'', get (result_node parsed) ''ErrorCode''),
                            (''errorMessage'', get (result_node parsed) ''ErrorMessage'')])],
                 ending = Returned\<rparr>)
       \<and> ((\<not> truthy (get (result_node parsed) ''ErrorCode'')
             \<or> get (result_node parsed) ''ErrorCode'' = Str (js ''0''))
            \<and> Number_js rt (get (result_node parsed) ''NumberOfRecordsFound'') = Inr n
          \<longrightarrow> attempts rt cfg net soap k =
                \<lparr>trace =
                   [OutboundCall (request_of cfg soap),
                    Respond 200
                      (Obj [(''ok'', Bool True),
                            (''transactionId'', get (result_node parsed) ''TransactionId''),
                            (''recordsFound'', Num n),
                            (''data'', result_node parsed)])],
                 ending = Returned\<rparr>)
       \<and> ((\<not> truthy (get (result_node parsed) ''ErrorCode'')
             \<or> get (result_node parsed) ''ErrorCode'' = Str (js ''0''))
            \<and> Number_js rt (get (result_node parsed) ''NumberOfRecordsFound'') = Inl e
          \<longrightarrow> try_block rt cfg (net k) soap = Some (Inl e))"
proof (intro conjI impI)
  assume "truthy (get (result_node parsed) ''ErrorCode'')
            \<and> get (result_node parsed) ''ErrorCode'' \<noteq> Str (js ''0'')"
  then show "attempts rt cfg net soap k =
                \<lparr>trace =
                   [OutboundCall (request_of cfg soap),
                    Respond 200
                      (Obj [(''ok'', Bool False), (''tloError'', Bool True),
                            (''errorCode'', get (result_node parsed) ''ErrorCode''),
                            (''errorMessage'', get (result_node parsed) ''ErrorMessage'')])],
                 ending = Returned\<rparr>"
    using assms by (simp add: attempt_responds try_block_def try_body_def Let_def)
next
  assume "(\<not> truthy (get (result_node parsed) ''ErrorCode'')
             \<or> get (result_node parsed) ''ErrorCode'' = Str (js ''0''))
            \<and> Number_js rt (get (result_node parsed) ''NumberOfRecordsFound'') = Inr n"
  then have "try_block rt cfg (net k) soap =
               Some (Inr (200, Obj [(''ok'', Bool True),
                            (''transactionId'', get (result_node parsed) ''TransactionId''),
                            (''recordsFound'', Num n),
                            (''data'', result_node parsed)]))"
    using assms(2-4) by (auto simp: try_block_def try_body_def Let_def)
  then show "attempts rt cfg net soap k =
                \<lparr>trace =
                   [OutboundCall (request_of cfg soap),
                    Respond 200
                      (Obj [(''ok'', Bool True),
                            (''transactionId'', get (result_node parsed) ''TransactionId''),
                            (''recordsFound'', Num n),
                            (''data'', result_node parsed)])],
                 ending = Returned\<rparr>"
    using assms(1) by (rule attempt_responds [rotated])
next
  assume "(\<not> truthy (get (result_node parsed) ''ErrorCode'')
             \<or> get (result_node parsed) ''ErrorCode'' = Str (js ''0''))
            \<and> Number_js rt (get (result_node parsed) ''NumberOfRecordsFound'') = Inl e"
  then show "try_block rt cfg (net k) soap = Some (Inl e)"
    using assms(2-4) by (auto simp: try_block_def try_body_def Let_def)
qed

text \<open>
  The spec's example, \<^verbatim>\<open>ErrorCode = "12"\<close>; an empty error code with the count \<^verbatim>\<open>"1"\<close>; and
  the error code \<^verbatim>\<open>"0"\<close> with a count that is an object, which the example runtime does not
  convert.
\<close>

theorem business_error_200_witness:
  "attempts example_runtime (CONFIG example_env) (net_answers body_error12) example_soap 1 =
     \<lparr>trace = [OutboundCall (request_of (CONFIG example_env) example_soap),
               Respond 200
                 (Obj [(''ok'', Bool False), (''tloError'', Bool True),
                       (''errorCode'', Str (js ''12'')),
                       (''errorMessage'', Str (js ''No records''))])],
      ending = Returned\<rparr>
   \<and> attempts example_runtime (CONFIG example_env) (net_answers body_empty_code) example_soap 1 =
     \<lparr>trace = [OutboundCall (request_of (CONFIG example_env) example_soap),
               Respond 200
                 (Obj [(''ok'', Bool True), (''transactionId'', Str (js ''T-2'')),
                       (''recordsFound'', Num (Finite 1)),
                       (''data'', Obj [(''ErrorCode'', Str []),
                                       (''TransactionId'', Str (js ''T-2'')),
                                       (''NumberOfRecordsFound'', Str (js ''1''))])])],
      ending = Returned\<rparr>
   \<and> try_block example_runtime (CONFIG example_env) (net_answers body_count_attribute 1)
       example_soap = Some (Inl (js ''Cannot convert object to primitive value''))"
proof -
  have n: "Number_js example_runtime (Str (js ''1'')) = Inr (Finite 1)"
    "Number_js example_runtime
       (Obj [(''_'', Str (js ''3'')), (''$'', Obj [(''unit'', Str (js ''x''))])]) =
     Inl (js ''Cannot convert object to primitive value'')"
    by (simp_all add: read_number_def example_runtime_def)
  show ?thesis
    using
      business_error_200 [of 1 "CONFIG example_env" "net_answers body_error12" example_soap
        200 body_error12 example_runtime, OF _ callTlo_answers parse_error12]
      business_error_200 [of 1 "CONFIG example_env" "net_answers body_empty_code" example_soap
        200 body_empty_code example_runtime _ "Finite 1", OF _ callTlo_answers parse_empty_code]
      business_error_200 [of 1 "CONFIG example_env" "net_answers body_count_attribute"
        example_soap 200 body_count_attribute example_runtime _ _
        "js ''Cannot convert object to primitive value''",
        OF _ callTlo_answers parse_count_attribute]
    by (simp del: Number_js.simps add: RETRIES_CONFIG result_node_parsed_response n)
qed

subsection \<open>The number of records\<close>




subsection \<open>What is retried\<close>

text \<open>
  C1, at the input where the code departs from it: the first exchange completes with
  status 200 and the body \<^verbatim>\<open>not xml\<close>, the second with a well-formed result. The parser's
  rejection of the first body is caught by the \<^verbatim>\<open>catch\<close> of the loop, logged as a failed
  attempt, and the handler calls again: a completed exchange with a malformed body is
  retried, and the caller is answered from the second exchange.
\<close>

theorem malformed_body_is_retried:
  "callTlo (CONFIG example_env) (net_not_xml_then_found 1) example_soap
     = Resolved 200 (js ''not xml'')
   \<and> person_search example_runtime (CONFIG example_env) net_not_xml_then_found example_request =
     \<lparr>trace =
        [OutboundCall (request_of (CONFIG example_env) example_soap),
         attempt_failed example_runtime 1 not_xml_message,
         OutboundCall (request_of (CONFIG example_env) example_soap),
         Respond 200
           (Obj [(''ok'', Bool True), (''transactionId'', Str (js ''T-1'')),
                 (''recordsFound'', Num (Finite 3)),
                 (''data'', Obj [(''ErrorCode'', Str (js ''0'')), (''TransactionId'', Str (js ''T-1'')),
                                 (''NumberOfRecordsFound'', Str (js ''3''))])])],
      ending = Returned\<rparr>"
proof -
  have c1: "callTlo (CONFIG example_env) (net_not_xml_then_found 1) example_soap
              = Resolved 200 (js ''not xml'')"
    by (simp add: callTlo_def net_not_xml_then_found_def settle_def)
  have c2: "callTlo (CONFIG example_env) (net_not_xml_then_found 2) example_soap
              = Resolved 200 body_found"
    by (simp add: callTlo_def net_not_xml_then_found_def settle_def)
  show ?thesis
    using c1 c2
    by (simp del: One_nat_def
          add: example_person_search attempts_unrolled [OF RETRIES_CONFIG] try_block_def
            try_body_not_xml try_body_found prepend_def)
qed

text \<open>Two calls were made for one completed exchange with a malformed body.\<close>

theorem malformed_body_is_retried_witness:
  "length (calls (person_search example_runtime (CONFIG example_env) net_not_xml_then_found
      example_request)) = 2
   \<and> length (logged (person_search example_runtime (CONFIG example_env)
        net_not_xml_then_found example_request)) = 1"
  using malformed_body_is_retried by (simp add: calls_def logged_def attempt_failed_def)

subsection \<open>The timeout\<close>

text \<open>
  C3, at the input where the code departs from it: the upstream accepts the request and
  sends nothing, and after \<^verbatim>\<open>TIMEOUT_MS\<close> of inactivity the request emits \<^verbatim>\<open>timeout\<close>.
  \<^verbatim>\<open>callTlo\<close> has no listener for that event and nothing destroys the request: the promise
  is still pending, the handler waits, and no response is sent.
\<close>

theorem timeout_leaves_attempt_pending:
  "timeout (request_of (CONFIG example_env) example_soap) = 20000
   \<and> callTlo (CONFIG example_env) (\<lambda>rq. [ReqTimeout]) example_soap = Pending
   \<and> person_search example_runtime (CONFIG example_env) net_silent example_request =
       \<lparr>trace = [OutboundCall (request_of (CONFIG example_env) example_soap)],
        ending = Hangs\<rparr>"
  by (simp del: One_nat_def
        add: example_person_search attempts_unrolled [OF RETRIES_CONFIG] try_block_def
          callTlo_silent)
     (simp add: callTlo_def request_of_def CONFIG_def)

text \<open>No response and no second call follow the timeout.\<close>

theorem timeout_leaves_attempt_pending_witness:
  "responses (person_search example_runtime (CONFIG example_env) net_silent example_request) = []
   \<and> length (calls (person_search example_runtime (CONFIG example_env) net_silent
        example_request)) = 1"
  using timeout_leaves_attempt_pending by (simp add: responses_def calls_def)

subsection \<open>Credentials\<close>

text \<open>
  The configured user name and password enter \<^verbatim>\<open>buildSoap\<close> only, the shared secret the
  comparison with the header only.
\<close>

lemma buildSoap_credentials:
  "buildSoap rt cfg q =
    (case xmlEscape rt (firstName q) of Inl e \<Rightarrow> Inl e | Inr f \<Rightarrow>
     case xmlEscape rt (lastName q) of Inl e \<Rightarrow> Inl e | Inr l \<Rightarrow>
     case xmlEscape rt (ssn q) of Inl e \<Rightarrow> Inl e | Inr s \<Rightarrow>
     Inr (envelope
            (escape5 (case TLO_USERNAME cfg of None \<Rightarrow> js ''undefined'' | Some u \<Rightarrow> u))
            (escape5 (case TLO_PASSWORD cfg of None \<Rightarrow> js ''undefined'' | Some p \<Rightarrow> p))
            f l s))"
  by (simp add: buildSoap_def xmlEscape_def env_value_def split: option.splits sum.splits)

lemma visible_attempts:
  assumes "RETRIES c1 = 2" and "RETRIES c2 = 2"
    and "\<And>k. try_block rt c1 (net k) s1 = try_block rt c2 (net k) s2"
  shows "visible (attempts rt c1 net s1 1) = visible (attempts rt c2 net s2 1)
       \<and> ending (attempts rt c1 net s1 1) = ending (attempts rt c2 net s2 1)"
  unfolding attempts_unrolled [OF assms(1)] attempts_unrolled [OF assms(2)] assms(3)
  by (simp add: visible_def prepend_def attempt_failed_def timeout_response_def
        split: option.splits sum.splits)

text \<open>
  C9. No log line and no response body carries the configured user name, password or
  shared secret. Stated as the absence of a flow: take two configurations with any user
  names, passwords and secrets, and two requests with the same body, each with its own
  \<^verbatim>\<open>x-shared-secret\<close> header (so that each may carry the secret of its configuration), and an
  upstream whose behaviour does not depend on the credentials in the envelope; if the
  header check has the same outcome in both, then the log lines, the response and the
  way the run ends are the same in both. The line logged at start-up depends on the
  port only.
\<close>

theorem credentials_do_not_flow:
  assumes "body req1 = body req2"
    and "(header req1 ''x-shared-secret'' = env1 ''SHARED_SECRET'')
           = (header req2 ''x-shared-secret'' = env2 ''SHARED_SECRET'')"
    and "\<And>k soap1 soap2.
           buildSoap rt (CONFIG env1) (query_of req1) = Inr soap1 \<Longrightarrow>
           buildSoap rt (CONFIG env2) (query_of req2) = Inr soap2 \<Longrightarrow>
           net k (request_of (CONFIG env1) soap1) = net k (request_of (CONFIG env2) soap2)"
  shows "visible (person_search rt (CONFIG env1) net req1)
           = visible (person_search rt (CONFIG env2) net req2)
       \<and> ending (person_search rt (CONFIG env1) net req1)
           = ending (person_search rt (CONFIG env2) net req2)
       \<and> (env1 ''PORT'' = env2 ''PORT''
            \<longrightarrow> startup_log rt (CONFIG env1) = startup_log rt (CONFIG env2))"
proof -
  have secret: "SHARED_SECRET (CONFIG env1) = env1 ''SHARED_SECRET''"
               "SHARED_SECRET (CONFIG env2) = env2 ''SHARED_SECRET''"
    by (simp_all add: CONFIG_def)
  have q: "query_of req2 = query_of req1"
    using assms(1) by (simp add: query_of_def)
  have port: "env1 ''PORT'' = env2 ''PORT''
            \<longrightarrow> startup_log rt (CONFIG env1) = startup_log rt (CONFIG env2)"
    by (simp add: startup_log_def CONFIG_def)
  have run: "visible (person_search rt (CONFIG env1) net req1)
           = visible (person_search rt (CONFIG env2) net req2)
       \<and> ending (person_search rt (CONFIG env1) net req1)
           = ending (person_search rt (CONFIG env2) net req2)"
  proof (cases "header req1 ''x-shared-secret'' = env1 ''SHARED_SECRET''")
    case False
    with assms(2) show ?thesis
      by (simp add: person_search_def secret)
  next
    case True
    note t1 = this
    with assms(2) have t2: "header req2 ''x-shared-secret'' = env2 ''SHARED_SECRET''"
      by simp
    show ?thesis
    proof (cases "\<not> truthy (firstName (query_of req1)) \<or> \<not> truthy (lastName (query_of req1))
                  \<or> \<not> truthy (ssn (query_of req1))")
      case True
      then show ?thesis
        using t1 t2 by (simp add: person_search_def secret Let_def q)
    next
      case False
      note valid = this
      show ?thesis
      proof (cases "buildSoap rt (CONFIG env1) (query_of req1)")
        case (Inl e)
        then have "buildSoap rt (CONFIG env2) (query_of req1) = Inl e"
          by (simp add: buildSoap_credentials split: sum.splits)
        with Inl valid show ?thesis
          using t1 t2 by (simp add: person_search_def secret Let_def q)
      next
        case (Inr soap1)
        then obtain soap2 where s2: "buildSoap rt (CONFIG env2) (query_of req1) = Inr soap2"
          by (auto simp: buildSoap_credentials split: sum.splits)
        have "\<And>k. try_block rt (CONFIG env1) (net k) soap1
                  = try_block rt (CONFIG env2) (net k) soap2"
          using assms(3) [OF Inr] s2 by (simp add: try_block_def callTlo_def q)
        then have "visible (attempts rt (CONFIG env1) net soap1 1)
                     = visible (attempts rt (CONFIG env2) net soap2 1)
                 \<and> ending (attempts rt (CONFIG env1) net soap1 1)
                     = ending (attempts rt (CONFIG env2) net soap2 1)"
          by (intro visible_attempts RETRIES_CONFIG)
        with Inr s2 valid show ?thesis
          using t1 t2 by (simp add: person_search_def secret Let_def q)
      qed
    qed
  qed
  from run port show ?thesis by simp
qed

text \<open>
  The example request under the example configuration, and the same body with the
  header \<^verbatim>\<open>t0ken\<close> under a configuration whose secret is \<^verbatim>\<open>t0ken\<close> and whose user name and
  password differ too, against an upstream that refuses every connection: both are
  authenticated, and what is logged and answered is the same. And the same two
  configurations with a header that matches neither secret.
\<close>

theorem credentials_do_not_flow_witness:
  "visible (person_search example_runtime (CONFIG example_env) net_refused example_request)
     = visible (person_search example_runtime (CONFIG other_env) net_refused other_request)
   \<and> ending (person_search example_runtime (CONFIG example_env) net_refused example_request)
     = ending (person_search example_runtime (CONFIG other_env) net_refused other_request)
   \<and> startup_log example_runtime (CONFIG example_env)
     = startup_log example_runtime (CONFIG other_env)
   \<and> header example_request ''x-shared-secret'' = SHARED_SECRET (CONFIG example_env)
   \<and> header other_request ''x-shared-secret'' = SHARED_SECRET (CONFIG other_env)
   \<and> SHARED_SECRET (CONFIG example_env) \<noteq> SHARED_SECRET (CONFIG other_env)
   \<and> TLO_USERNAME (CONFIG example_env) \<noteq> TLO_USERNAME (CONFIG other_env)
   \<and> TLO_PASSWORD (CONFIG example_env) \<noteq> TLO_PASSWORD (CONFIG other_env)
   \<and> length (logged (person_search example_runtime (CONFIG example_env) net_refused
        example_request)) = 3
   \<and> visible (person_search example_runtime (CONFIG example_env) net_refused
        (example_request\<lparr>header := [''x-shared-secret'' \<mapsto> js ''guess'']\<rparr>))
     = visible (person_search example_runtime (CONFIG other_env) net_refused
        (example_request\<lparr>header := [''x-shared-secret'' \<mapsto> js ''guess'']\<rparr>))"
proof -
  let ?guess = "example_request\<lparr>header := [''x-shared-secret'' \<mapsto> js ''guess'']\<rparr>"
  have a: "(header example_request ''x-shared-secret'' = example_env ''SHARED_SECRET'')
             = (header other_request ''x-shared-secret'' = other_env ''SHARED_SECRET'')"
    by (simp add: example_request_def other_request_def example_env_def other_env_def)
  have a': "(header ?guess ''x-shared-secret'' = example_env ''SHARED_SECRET'')
             = (header ?guess ''x-shared-secret'' = other_env ''SHARED_SECRET'')"
    by (simp add: example_env_def other_env_def)
  have b: "\<And>k e1 e2 soap1 soap2.
      net_refused k (request_of (CONFIG e1) soap1) = net_refused k (request_of (CONFIG e2) soap2)"
    by (simp add: net_refused_def)
  have c: "header example_request ''x-shared-secret'' = SHARED_SECRET (CONFIG example_env)
         \<and> header other_request ''x-shared-secret'' = SHARED_SECRET (CONFIG other_env)
         \<and> SHARED_SECRET (CONFIG example_env) \<noteq> SHARED_SECRET (CONFIG other_env)
         \<and> TLO_USERNAME (CONFIG example_env) \<noteq> TLO_USERNAME (CONFIG other_env)
         \<and> TLO_PASSWORD (CONFIG example_env) \<noteq> TLO_PASSWORD (CONFIG other_env)"
    by (simp add: CONFIG_def example_env_def other_env_def example_request_def
          other_request_def)
  have p: "example_env ''PORT'' = other_env ''PORT''"
    by (simp add: example_env_def other_env_def)
  have bd: "body example_request = body other_request"
    by (simp add: other_request_def)
  have l: "length (logged (person_search example_runtime (CONFIG example_env) net_refused
        example_request)) = 3"
    by (simp del: One_nat_def
          add: example_person_search attempts_unrolled [OF RETRIES_CONFIG] try_block_def
            callTlo_refused prepend_def logged_def attempt_failed_def timeout_response_def)
  show ?thesis
    using credentials_do_not_flow [of example_request other_request example_env other_env
        example_runtime net_refused, OF bd a b]
      credentials_do_not_flow [of ?guess ?guess example_env other_env example_runtime
        net_refused, OF refl a' b] c p l
    by blast
qed
subsection \<open>The envelope\<close>

lemma esc1_no_markup:
  "cu CHR ''<'' \<notin> set (esc1 c)" "cu CHR ''>'' \<notin> set (esc1 c)"
  "cu (CHR 0x22) \<notin> set (esc1 c)" "cu (CHR 0x27) \<notin> set (esc1 c)"
  by (auto simp: esc1_def js_Cons)

lemma escape5_no_markup:
  "cu CHR ''<'' \<notin> set (escape5 s)" "cu CHR ''>'' \<notin> set (escape5 s)"
  "cu (CHR 0x22) \<notin> set (escape5 s)" "cu (CHR 0x27) \<notin> set (escape5 s)"
  by (induction s) (simp_all add: escape5_Nil escape5_Cons esc1_no_markup)

lemma decode_esc1: "decode (esc1 c @ t) = map_option ((#) c) (decode t)"
  by (simp add: esc1_def reference_def js_Cons)

lemma decode_escape5: "decode (escape5 s) = Some s"
  by (induction s) (simp_all add: escape5_Nil escape5_Cons decode_esc1)

lemma no_cdata_end: "cu CHR ''>'' \<notin> set s \<Longrightarrow> \<not> has_cdata_end s"
  by (induction s rule: has_cdata_end.induct) auto

lemma normalize_eol_id: "0x0D \<notin> set s \<Longrightarrow> normalize_eol s = s"
  by (induction s rule: normalize_eol.induct) auto

lemma takeWhile_until: "c \<notin> set xs \<Longrightarrow> takeWhile (\<lambda>x. x \<noteq> c) (xs @ c # ys) = xs"
  by (induction xs) auto

lemma dropWhile_until: "c \<notin> set xs \<Longrightarrow> dropWhile (\<lambda>x. x \<noteq> c) (xs @ c # ys) = c # ys"
  by (induction xs) auto

text \<open>Character data written by \<^verbatim>\<open>xmlEscape\<close>, up to the tag that follows it.\<close>

lemma tokens_escaped:
  "tokens (escape5 s @ cu CHR ''<'' # rest) =
     (case tag rest of
        None \<Rightarrow> None
      | Some (tok, cs2) \<Rightarrow> map_option (\<lambda>ts. CharData s # tok # ts) (tokens cs2))"
proof -
  have t: "takeWhile (\<lambda>c. c \<noteq> cu CHR ''<'') (escape5 s @ cu CHR ''<'' # rest) = escape5 s"
    by (rule takeWhile_until [OF escape5_no_markup(1)])
  have d: "dropWhile (\<lambda>c. c \<noteq> cu CHR ''<'') (escape5 s @ cu CHR ''<'' # rest)
             = cu CHR ''<'' # rest"
    by (rule dropWhile_until [OF escape5_no_markup(1)])
  show ?thesis
    by (subst tokens.simps)
       (simp add: Let_def t d decode_escape5 no_cdata_end escape5_no_markup(2)
          split: option.splits)
qed

text \<open>The reader on the pieces of the template, whatever follows them.\<close>

lemmas attributes_Cons = attributes.simps [of "c # cs"] for c cs

lemma tokens_Nil: "tokens [] = Some [CharData []]"
  by (subst tokens.simps) simp

lemma tokens_lt:
  "tokens (cu CHR ''<'' # rest) =
     (case tag rest of
        None \<Rightarrow> None
      | Some (tok, cs2) \<Rightarrow> map_option (\<lambda>ts. CharData [] # tok # ts) (tokens cs2))"
  by (subst tokens.simps) (simp split: option.splits)

lemma decode_plain: "cu CHR ''&'' \<notin> set w \<Longrightarrow> decode w = Some w"
  by (induction w) auto

text \<open>Plain text up to the tag that follows it.\<close>

lemma tokens_text:
  assumes "cu CHR ''<'' \<notin> set w" "cu CHR ''&'' \<notin> set w" "cu CHR ''>'' \<notin> set w"
  shows "tokens (w @ cu CHR ''<'' # rest) =
     (case tag rest of
        None \<Rightarrow> None
      | Some (tok, cs2) \<Rightarrow> map_option (\<lambda>ts. CharData w # tok # ts) (tokens cs2))"
  by (subst tokens.simps)
     (simp add: Let_def takeWhile_until [OF assms(1)] dropWhile_until [OF assms(1)]
        decode_plain [OF assms(2)] no_cdata_end [OF assms(3)] split: option.splits)

lemma tokens_text_facts:
  "tokens (nl @ cu CHR ''<'' # rest) =
     (case tag rest of
        None \<Rightarrow> None
      | Some (tok, cs2) \<Rightarrow> map_option (\<lambda>ts. CharData nl # tok # ts) (tokens cs2))"
  "tokens ((nl @ js ''  '') @ cu CHR ''<'' # rest) =
     (case tag rest of
        None \<Rightarrow> None
      | Some (tok, cs2) \<Rightarrow> map_option (\<lambda>ts. CharData (nl @ js ''  '') # tok # ts) (tokens cs2))"
  "tokens ((nl @ js ''    '') @ cu CHR ''<'' # rest) =
     (case tag rest of
        None \<Rightarrow> None
      | Some (tok, cs2) \<Rightarrow> map_option (\<lambda>ts. CharData (nl @ js ''    '') # tok # ts) (tokens cs2))"
  "tokens ((nl @ js ''      '') @ cu CHR ''<'' # rest) =
     (case tag rest of
        None \<Rightarrow> None
      | Some (tok, cs2) \<Rightarrow> map_option (\<lambda>ts. CharData (nl @ js ''      '') # tok # ts) (tokens cs2))"
  "tokens ((nl @ js ''        '') @ cu CHR ''<'' # rest) =
     (case tag rest of
        None \<Rightarrow> None
      | Some (tok, cs2) \<Rightarrow>
          map_option (\<lambda>ts. CharData (nl @ js ''        '') # tok # ts) (tokens cs2))"
  "tokens ((nl @ js ''          '') @ cu CHR ''<'' # rest) =
     (case tag rest of
        None \<Rightarrow> None
      | Some (tok, cs2) \<Rightarrow>
          map_option (\<lambda>ts. CharData (nl @ js ''          '') # tok # ts) (tokens cs2))"
  "tokens (js ''0'' @ cu CHR ''<'' # rest) =
     (case tag rest of
        None \<Rightarrow> None
      | Some (tok, cs2) \<Rightarrow> map_option (\<lambda>ts. CharData (js ''0'') # tok # ts) (tokens cs2))"
  "tokens (js ''25'' @ cu CHR ''<'' # rest) =
     (case tag rest of
        None \<Rightarrow> None
      | Some (tok, cs2) \<Rightarrow> map_option (\<lambda>ts. CharData (js ''25'') # tok # ts) (tokens cs2))"
  "tokens (js ''1'' @ cu CHR ''<'' # rest) =
     (case tag rest of
        None \<Rightarrow> None
      | Some (tok, cs2) \<Rightarrow> map_option (\<lambda>ts. CharData (js ''1'') # tok # ts) (tokens cs2))"
  by (rule tokens_text; simp add: nl_def js_Cons)+

lemmas tag_defs =
  tag_def attributes_Cons att_value_def Let_def is_space_def name_start_char_def name_char_def
  reference_def

lemma prolog_declaration: "prolog (soap_declaration @ X) = Some X"
  by (simp add: prolog_def soap_declaration_def tag_defs js_Cons cu_def)

lemma tag_facts:
  \<open>tag (js ''soapenv:Envelope xmlns:soapenv="http://schemas.xmlsoap.org/soap/envelope/" xmlns:tlo="http://tlo.com/">'' @ X) =
     Some (STag (js ''soapenv:Envelope'')
                   [(js ''xmlns:soapenv'', js ''http://schemas.xmlsoap.org/soap/envelope/''),
                    (js ''xmlns:tlo'', js ''http://tlo.com/'')], X)\<close>
  "tag (js ''/soapenv:Envelope>'' @ X) = Some (ETag (js ''soapenv:Envelope''), X)"
  "tag (js ''soapenv:Header/>'' @ X) = Some (EmptyTag (js ''soapenv:Header'') [], X)"
  "tag (js ''soapenv:Body>'' @ X) = Some (STag (js ''soapenv:Body'') [], X)"
  "tag (js ''/soapenv:Body>'' @ X) = Some (ETag (js ''soapenv:Body''), X)"
  "tag (js ''tlo:PersonSearch>'' @ X) = Some (STag (js ''tlo:PersonSearch'') [], X)"
  "tag (js ''/tlo:PersonSearch>'' @ X) = Some (ETag (js ''tlo:PersonSearch''), X)"
  "tag (js ''tlo:genericSearchInput>'' @ X) = Some (STag (js ''tlo:genericSearchInput'') [], X)"
  "tag (js ''/tlo:genericSearchInput>'' @ X) = Some (ETag (js ''tlo:genericSearchInput''), X)"
  "tag (js ''tlo:Username>'' @ X) = Some (STag (js ''tlo:Username'') [], X)"
  "tag (js ''/tlo:Username>'' @ X) = Some (ETag (js ''tlo:Username''), X)"
  "tag (js ''tlo:Password>'' @ X) = Some (STag (js ''tlo:Password'') [], X)"
  "tag (js ''/tlo:Password>'' @ X) = Some (ETag (js ''tlo:Password''), X)"
  "tag (js ''tlo:DPPAPurpose>'' @ X) = Some (STag (js ''tlo:DPPAPurpose'') [], X)"
  "tag (js ''/tlo:DPPAPurpose>'' @ X) = Some (ETag (js ''tlo:DPPAPurpose''), X)"
  "tag (js ''tlo:GLBPurpose>'' @ X) = Some (STag (js ''tlo:GLBPurpose'') [], X)"
  "tag (js ''/tlo:GLBPurpose>'' @ X) = Some (ETag (js ''tlo:GLBPurpose''), X)"
  "tag (js ''tlo:NumberOfRecords>'' @ X) = Some (STag (js ''tlo:NumberOfRecords'') [], X)"
  "tag (js ''/tlo:NumberOfRecords>'' @ X) = Some (ETag (js ''tlo:NumberOfRecords''), X)"
  "tag (js ''tlo:StartingRecord>'' @ X) = Some (STag (js ''tlo:StartingRecord'') [], X)"
  "tag (js ''/tlo:StartingRecord>'' @ X) = Some (ETag (js ''tlo:StartingRecord''), X)"
  "tag (js ''tlo:Name>'' @ X) = Some (STag (js ''tlo:Name'') [], X)"
  "tag (js ''/tlo:Name>'' @ X) = Some (ETag (js ''tlo:Name''), X)"
  "tag (js ''tlo:FirstName>'' @ X) = Some (STag (js ''tlo:FirstName'') [], X)"
  "tag (js ''/tlo:FirstName>'' @ X) = Some (ETag (js ''tlo:FirstName''), X)"
  "tag (js ''tlo:LastName>'' @ X) = Some (STag (js ''tlo:LastName'') [], X)"
  "tag (js ''/tlo:LastName>'' @ X) = Some (ETag (js ''tlo:LastName''), X)"
  "tag (js ''tlo:SSN>'' @ X) = Some (STag (js ''tlo:SSN'') [], X)"
  "tag (js ''/tlo:SSN>'' @ X) = Some (ETag (js ''tlo:SSN''), X)"
  by (simp_all add: tag_defs js_Cons cu_def)

declare js_Cons [simp] cu_def [simp] nl_def [simp]

lemmas tag_rules = tag_facts [simplified]

lemmas text_rules = tokens_text_facts [simplified]

lemmas token_rules =
  tokens_escaped [simplified] tokens_lt [simplified] text_rules tokens_Nil tag_rules

lemma tokens_after_username:
  "tokens (escape5 u @ soap_after_username @ X) =
     (case tokens X of
        None \<Rightarrow> None
      | Some ts \<Rightarrow>
          Some ([CharData u, ETag (js ''tlo:Username''),
                 CharData (nl @ js ''        ''), STag (js ''tlo:Password'') []] @ ts))"
  by (cases "tokens X") (simp_all add: soap_after_username_def token_rules)

lemma tokens_head:
  "tokens (soap_head @ X) =
     (case tokens X of
        None \<Rightarrow> None
      | Some ts \<Rightarrow>
          Some ([CharData nl,
                 STag (js ''soapenv:Envelope'')
                   [(js ''xmlns:soapenv'', js ''http://schemas.xmlsoap.org/soap/envelope/''),
                    (js ''xmlns:tlo'', js ''http://tlo.com/'')],
                 CharData (nl @ js ''  ''), EmptyTag (js ''soapenv:Header'') [],
                 CharData (nl @ js ''  ''), STag (js ''soapenv:Body'') [],
                 CharData (nl @ js ''    ''), STag (js ''tlo:PersonSearch'') [],
                 CharData (nl @ js ''      ''), STag (js ''tlo:genericSearchInput'') [],
                 CharData (nl @ js ''        ''), STag (js ''tlo:Username'') []] @ ts))"
  by (cases "tokens X") (simp_all add: soap_head_def token_rules)

lemma tokens_after_password:
  "tokens (escape5 p @ soap_after_password @ X) =
     (case tokens X of
        None \<Rightarrow> None
      | Some ts \<Rightarrow>
          Some ([CharData p, ETag (js ''tlo:Password''),
                 CharData (nl @ js ''        ''), STag (js ''tlo:DPPAPurpose'') [],
                 CharData (js ''0''), ETag (js ''tlo:DPPAPurpose''),
                 CharData (nl @ js ''        ''), STag (js ''tlo:GLBPurpose'') [],
                 CharData (js ''0''), ETag (js ''tlo:GLBPurpose''),
                 CharData (nl @ js ''        ''), STag (js ''tlo:NumberOfRecords'') [],
                 CharData (js ''25''), ETag (js ''tlo:NumberOfRecords''),
                 CharData (nl @ js ''        ''), STag (js ''tlo:StartingRecord'') [],
                 CharData (js ''1''), ETag (js ''tlo:StartingRecord''),
                 CharData (nl @ js ''        ''), STag (js ''tlo:Name'') [],
                 CharData (nl @ js ''          ''), STag (js ''tlo:FirstName'') []] @ ts))"
  by (cases "tokens X") (simp_all add: soap_after_password_def token_rules)

lemma tokens_after_firstName:
  "tokens (escape5 f @ soap_after_firstName @ X) =
     (case tokens X of
        None \<Rightarrow> None
      | Some ts \<Rightarrow>
          Some ([CharData f, ETag (js ''tlo:FirstName''),
                 CharData (nl @ js ''          ''), STag (js ''tlo:LastName'') []] @ ts))"
  by (cases "tokens X") (simp_all add: soap_after_firstName_def token_rules)

lemma tokens_after_lastName:
  "tokens (escape5 l @ soap_after_lastName @ X) =
     (case tokens X of
        None \<Rightarrow> None
      | Some ts \<Rightarrow>
          Some ([CharData l, ETag (js ''tlo:LastName''),
                 CharData (nl @ js ''        ''), ETag (js ''tlo:Name''),
                 CharData (nl @ js ''        ''), STag (js ''tlo:SSN'') []] @ ts))"
  by (cases "tokens X") (simp_all add: soap_after_lastName_def token_rules)

lemma tokens_tail:
  "tokens (escape5 s @ soap_tail) =
     Some [CharData s, ETag (js ''tlo:SSN''),
           CharData (nl @ js ''      ''), ETag (js ''tlo:genericSearchInput''),
           CharData (nl @ js ''    ''), ETag (js ''tlo:PersonSearch''),
           CharData (nl @ js ''  ''), ETag (js ''soapenv:Body''),
           CharData nl, ETag (js ''soapenv:Envelope''), CharData []]"
  by (simp add: soap_tail_def token_rules)

lemma tokens_envelope:
  "tokens (soap_head @ escape5 u @ soap_after_username @ escape5 p @ soap_after_password @
           escape5 f @ soap_after_firstName @ escape5 l @ soap_after_lastName @
           escape5 s @ soap_tail) = Some (envelope_tokens u p f l s)"
  by (simp only: tokens_head tokens_after_username tokens_after_password
        tokens_after_firstName tokens_after_lastName tokens_tail option.case append.simps
        envelope_tokens_def)

declare js_Cons [simp del] cu_def [simp del] nl_def [simp del]

lemma texts_simps: "texts [] = []" "texts (c # cs) = [Text (c # cs)]"
  by (simp_all add: texts_def)

lemma build_envelope:
  "build [] [] (envelope_tokens u p f l s) = Some [indent 0, envelope_document u p f l s]"
  by (simp add: envelope_tokens_def envelope_document_def indent_def leaf_def nl_def
        texts_simps eval_nat_numeral js_Cons)

text \<open>
  After the normalization of line ends, the envelope reads as the intended document,
  whatever the five strings are.
\<close>

lemma parse_normalized_envelope:
  "parse_normalized (envelope (escape5 u) (escape5 p) (escape5 f) (escape5 l) (escape5 s)) =
     Some (envelope_document u p f l s)"
proof -
  have "parse_normalized
          (soap_declaration @
            (soap_head @ escape5 u @ soap_after_username @ escape5 p @ soap_after_password @
             escape5 f @ soap_after_firstName @ escape5 l @ soap_after_lastName @
             escape5 s @ soap_tail)) = Some (envelope_document u p f l s)"
    by (simp add: parse_normalized_def prolog_declaration tokens_envelope build_envelope
          indent_def nl_def is_space_def envelope_document_def cu_def)
  then show ?thesis
    by (simp add: envelope_def)
qed


subsection \<open>Characters\<close>

lemma xml_char_not_surrogate: "xml_char c \<Longrightarrow> \<not> high_surrogate c \<and> \<not> low_surrogate c"
  by (auto simp: xml_char_def high_surrogate_def low_surrogate_def)

lemma xml_chars_Cons: "xml_char c \<Longrightarrow> xml_chars (c # s) = xml_chars s"
  by (cases s) (simp_all add: xml_char_not_surrogate)

lemma xml_chars_append: "xml_chars a \<Longrightarrow> xml_chars b \<Longrightarrow> xml_chars (a @ b)"
proof (induction a rule: xml_chars.induct)
  case 1
  then show ?case by simp
next
  case (2 c)
  then show ?case by (simp add: xml_chars_Cons)
next
  case (3 c d cs)
  then show ?case by (auto split: if_splits)
qed

lemma xml_chars_plain: "list_all xml_char s \<Longrightarrow> xml_chars s"
  by (induction s) (simp_all add: xml_chars_Cons)

text \<open>A code unit of a string of Chars is a Char by itself or a surrogate.\<close>

lemma xml_chars_units:
  "xml_chars s \<Longrightarrow> c \<in> set s \<Longrightarrow> xml_char c \<or> high_surrogate c \<or> low_surrogate c"
  by (induction s rule: xml_chars.induct) (auto split: if_splits)

lemma xml_text_append: "xml_text a \<Longrightarrow> xml_text b \<Longrightarrow> xml_text (a @ b)"
  by (simp add: xml_text_def xml_chars_append)

lemma xml_text_plain: "list_all (\<lambda>c. xml_char c \<and> c \<noteq> 0x0D) s \<Longrightarrow> xml_text s"
  by (auto simp: xml_text_def list_all_iff intro: xml_chars_plain)

lemma xml_text_no_cr: "xml_text s \<Longrightarrow> 0x0D \<notin> set s"
  by (simp add: xml_text_def)

lemma template_chars:
  "xml_text soap_declaration" "xml_text soap_head" "xml_text soap_after_username"
  "xml_text soap_after_password" "xml_text soap_after_firstName" "xml_text soap_after_lastName"
  "xml_text soap_tail"
  by (rule xml_text_plain;
      simp add: xml_char_def soap_declaration_def soap_head_def soap_after_username_def
        soap_after_password_def soap_after_firstName_def soap_after_lastName_def soap_tail_def
        nl_def js_Cons cu_def)+

lemma esc1_surrogate: "high_surrogate c \<or> low_surrogate c \<Longrightarrow> esc1 c = [c]"
  by (auto simp: esc1_def high_surrogate_def low_surrogate_def cu_def)

lemma xml_text_esc1: "xml_char c \<Longrightarrow> c \<noteq> 0x0D \<Longrightarrow> xml_text (esc1 c)"
  by (auto simp: esc1_def js_Cons cu_def xml_char_def intro!: xml_text_plain)

text \<open>\<^verbatim>\<open>xmlEscape\<close> leaves a surrogate pair as it is, and writes Chars for a Char.\<close>

lemma xml_text_escape5: "xml_text s \<Longrightarrow> xml_text (escape5 s)"
proof (induction s rule: xml_chars.induct)
  case 1
  then show ?case by (simp add: escape5_Nil)
next
  case (2 c)
  then show ?case
    using xml_text_esc1 [of c] by (simp add: escape5_Cons escape5_Nil xml_text_def)
next
  case (3 c d cs)
  show ?case
  proof (cases "high_surrogate c")
    case True
    with "3.prems" have d: "low_surrogate d" and cs: "xml_text cs"
      by (simp_all add: xml_text_def)
    from True cs have "xml_text (escape5 cs)"
      by (rule "3.IH"(1))
    moreover have "c \<noteq> 0x0D" "d \<noteq> 0x0D"
      using "3.prems" by (auto simp: xml_text_def)
    ultimately show ?thesis
      using True d by (simp add: escape5_Cons esc1_surrogate xml_text_def)
  next
    case False
    with "3.prems" have c: "xml_char c" "c \<noteq> 0x0D" and rest: "xml_text (d # cs)"
      by (auto simp: xml_text_def)
    from False rest have "xml_text (escape5 (d # cs))"
      by (rule "3.IH"(2))
    with xml_text_esc1 [OF c] show ?thesis
      by (subst escape5_Cons) (rule xml_text_append)
  qed
qed

lemma normalize_eol_cr:
  assumes "0x0D \<notin> set xs" and "d \<noteq> 0x0A" and "0x0D \<notin> set (d # ys)"
  shows "normalize_eol (xs @ 0x0D # d # ys) = xs @ 0x0A # d # ys"
  using assms(1)
proof (induction xs)
  case Nil
  show ?case
    using assms(2) normalize_eol_id [OF assms(3)] by simp
next
  case (Cons x xs)
  then show ?case
    by (cases "xs @ 0x0D # d # ys") auto
qed

lemma xml_text_envelope:
  assumes "xml_text u" "xml_text p" "xml_text f" "xml_text l" "xml_text s"
  shows "xml_text (envelope u p f l s)"
  unfolding envelope_def by (intro xml_text_append template_chars assms)

lemma parse_xml_envelope:
  assumes "xml_text u" "xml_text p" "xml_text f" "xml_text l" "xml_text s"
  shows "parse_xml (envelope (escape5 u) (escape5 p) (escape5 f) (escape5 l) (escape5 s)) =
           Some (envelope_document u p f l s)"
proof -
  have "xml_text (envelope (escape5 u) (escape5 p) (escape5 f) (escape5 l) (escape5 s))"
    by (intro xml_text_envelope xml_text_escape5 assms)
  then show ?thesis
    by (simp add: parse_xml_def xml_text_def normalize_eol_id parse_normalized_envelope)
qed

lemma escape5_append: "escape5 (a @ b) = escape5 a @ escape5 b"
  by (simp add: escape5_concat)

lemma example_texts:
  "xml_text (js ''acct'')" "xml_text (js ''pw&1'')" "xml_text (js ''pw&amp;1'')"
  "xml_text (js ''Lee'')" "xml_text (js ''123456789'')" "xml_text (js ''A'')"
  by (rule xml_text_plain; simp add: xml_char_def js_Cons cu_def)+

text \<open>
  C8, as stated: for every query the envelope is well-formed and is read back as it was
  written. \<^verbatim>\<open>xmlEscape\<close> replaces the five reserved characters and nothing else. A first
  name that holds the control character U+0001, which is not a Char of XML, is copied
  into the envelope, and a conformant reader rejects the document. A first name that
  ends with a carriage return gives a well-formed envelope, but a reader normalizes the
  line end and gives back a line feed.
\<close>

theorem control_character_breaks_envelope:
  "buildSoap example_runtime (CONFIG example_env)
     \<lparr>firstName = Str [0x01], lastName = Str (js ''Lee''), ssn = Str (js ''123456789'')\<rparr>
     = Inr (envelope (js ''acct'') (js ''pw&amp;1'') [0x01] (js ''Lee'') (js ''123456789''))
   \<and> parse_xml (envelope (js ''acct'') (js ''pw&amp;1'') [0x01] (js ''Lee'') (js ''123456789''))
     = None
   \<and> buildSoap example_runtime (CONFIG example_env)
     \<lparr>firstName = Str [cu CHR ''A'', 0x0D], lastName = Str (js ''Lee''),
      ssn = Str (js ''123456789'')\<rparr>
     = Inr (envelope (js ''acct'') (js ''pw&amp;1'') [cu CHR ''A'', 0x0D] (js ''Lee'')
              (js ''123456789''))
   \<and> parse_xml (envelope (js ''acct'') (js ''pw&amp;1'') [cu CHR ''A'', 0x0D] (js ''Lee'')
                  (js ''123456789''))
     = Some (envelope_document (js ''acct'') (js ''pw&1'') [cu CHR ''A'', 0x0A] (js ''Lee'')
               (js ''123456789''))"
proof -
  let ?e1 = "envelope (js ''acct'') (js ''pw&amp;1'') [0x01] (js ''Lee'') (js ''123456789'')"
  let ?e2 = "envelope (js ''acct'') (js ''pw&amp;1'') [cu CHR ''A'', 0x0D] (js ''Lee'')
               (js ''123456789'')"
  have esc: "escape5 [0x01] = [0x01]" "escape5 [cu CHR ''A'', 0x0D] = [cu CHR ''A'', 0x0D]"
    "escape5 [cu CHR ''A'', 0x0A] = [cu CHR ''A'', 0x0A]"
    by (simp_all add: escape5_Cons escape5_Nil esc1_def cu_def)
  have b1: "buildSoap example_runtime (CONFIG example_env)
     \<lparr>firstName = Str [0x01], lastName = Str (js ''Lee''), ssn = Str (js ''123456789'')\<rparr>
     = Inr ?e1"
    by (simp del: One_nat_def
          add: buildSoap_def xmlEscape_def env_value_def CONFIG_def example_env_def
            example_escapes esc)
  have b2: "buildSoap example_runtime (CONFIG example_env)
     \<lparr>firstName = Str [cu CHR ''A'', 0x0D], lastName = Str (js ''Lee''),
      ssn = Str (js ''123456789'')\<rparr>
     = Inr ?e2"
    by (simp add: buildSoap_def xmlEscape_def env_value_def CONFIG_def example_env_def
          example_escapes esc)
  have "0x01 \<in> set ?e1"
    by (simp add: envelope_def)
  moreover have "\<not> (xml_char 0x01 \<or> high_surrogate 0x01 \<or> low_surrogate 0x01)"
    by (simp add: xml_char_def high_surrogate_def low_surrogate_def)
  ultimately have "\<not> xml_chars ?e1"
    using xml_chars_units by blast
  then have p1: "parse_xml ?e1 = None"
    by (simp add: parse_xml_def)
  have a: "xml_chars [cu CHR ''A'', 0x0D]"
    by (simp add: xml_char_def high_surrogate_def cu_def)
  have chars: "xml_chars ?e2"
    unfolding envelope_def
    by (intro xml_chars_append a template_chars [unfolded xml_text_def, THEN conjunct1]
          example_texts [unfolded xml_text_def, THEN conjunct1])
  have shape: "envelope (js ''acct'') (js ''pw&amp;1'') [cu CHR ''A'', c] (js ''Lee'')
                 (js ''123456789'') =
      (soap_declaration @ soap_head @ js ''acct'' @ soap_after_username @ js ''pw&amp;1'' @
         soap_after_password @ js ''A'') @
      c # cu CHR ''<'' # (tl soap_after_firstName @ js ''Lee'' @ soap_after_lastName @
         js ''123456789'' @ soap_tail)" for c
    by (simp add: envelope_def soap_after_firstName_def js_Cons)
  have free1: "0x0D \<notin> set (soap_declaration @ soap_head @ js ''acct'' @
         soap_after_username @ js ''pw&amp;1'' @ soap_after_password @ js ''A'')"
    by (rule xml_text_no_cr) (intro xml_text_append template_chars example_texts)
  have e: "cu CHR ''<'' # (tl soap_after_firstName @ js ''Lee'' @ soap_after_lastName @
         js ''123456789'' @ soap_tail) = soap_after_firstName @ js ''Lee'' @
         soap_after_lastName @ js ''123456789'' @ soap_tail"
    by (simp add: soap_after_firstName_def js_Cons)
  have x: "xml_text (soap_after_firstName @ js ''Lee'' @ soap_after_lastName @
         js ''123456789'' @ soap_tail)"
    by (intro xml_text_append template_chars example_texts)
  have free2: "0x0D \<notin> set (cu CHR ''<'' # (tl soap_after_firstName @ js ''Lee'' @
         soap_after_lastName @ js ''123456789'' @ soap_tail))"
    unfolding e by (rule xml_text_no_cr [OF x])
  have lt: "cu CHR ''<'' \<noteq> 0x0A"
    by (simp add: cu_def)
  have "normalize_eol ?e2 =
      envelope (js ''acct'') (js ''pw&amp;1'') [cu CHR ''A'', 0x0A] (js ''Lee'')
        (js ''123456789'')"
    unfolding shape by (rule normalize_eol_cr [OF free1 lt free2])
  also have "\<dots> = envelope (escape5 (js ''acct'')) (escape5 (js ''pw&1''))
        (escape5 [cu CHR ''A'', 0x0A]) (escape5 (js ''Lee'')) (escape5 (js ''123456789''))"
    by (simp add: example_escapes esc)
  finally have norm: "normalize_eol ?e2 =
      envelope (escape5 (js ''acct'')) (escape5 (js ''pw&1'')) (escape5 [cu CHR ''A'', 0x0A])
        (escape5 (js ''Lee'')) (escape5 (js ''123456789''))" .
  have p2: "parse_xml ?e2
     = Some (envelope_document (js ''acct'') (js ''pw&1'') [cu CHR ''A'', 0x0A] (js ''Lee'')
               (js ''123456789''))"
    unfolding parse_xml_def norm parse_normalized_envelope using chars by simp
  from b1 p1 b2 p2 show ?thesis by simp
qed

text \<open>
  C8, amended: for every query whose strings, and the configured credentials, consist of
  Chars of XML other than the carriage return (characters beyond U+FFFF as surrogate
  pairs), the envelope is well-formed; the reader gives the fixed elements of the
  template with each of the five strings, whatever reserved characters it holds, as the
  text of its own element (no tag is injected), and that text is the string that was
  given.
\<close>

theorem envelope_round_trip:
  assumes "String_js rt (firstName q) = Inr f" and "String_js rt (lastName q) = Inr l"
    and "String_js rt (ssn q) = Inr s"
    and "xml_text (credential (TLO_USERNAME cfg))" and "xml_text (credential (TLO_PASSWORD cfg))"
    and "xml_text f" and "xml_text l" and "xml_text s"
  shows "buildSoap rt cfg q =
           Inr (envelope (escape5 (credential (TLO_USERNAME cfg)))
                  (escape5 (credential (TLO_PASSWORD cfg))) (escape5 f) (escape5 l) (escape5 s))
       \<and> parse_xml
             (envelope (escape5 (credential (TLO_USERNAME cfg)))
                (escape5 (credential (TLO_PASSWORD cfg))) (escape5 f) (escape5 l) (escape5 s)) =
           Some (envelope_document (credential (TLO_USERNAME cfg))
                   (credential (TLO_PASSWORD cfg)) f l s)"
proof -
  have "buildSoap rt cfg q =
           Inr (envelope (escape5 (credential (TLO_USERNAME cfg)))
                  (escape5 (credential (TLO_PASSWORD cfg))) (escape5 f) (escape5 l) (escape5 s))"
    using assms(1-3)
    by (simp add: buildSoap_def xmlEscape_def env_value_def credential_def
          split: option.splits)
  with parse_xml_envelope [OF assms(4-8)] show ?thesis
    by simp
qed

text \<open>
  A query with all five reserved characters in it, and with characters outside Latin-1:
  U+4E2D, and U+1F600 as the surrogate pair D83D DE00.
\<close>

theorem envelope_round_trip_witness:
  \<open>buildSoap example_runtime (CONFIG example_env)
     \<lparr>firstName = Str (js ''<b>"A" & 'B'</b>''),
      lastName = Str (js ''O'Neil '' @ [0x4E2D, 0xD83D, 0xDE00]),
      ssn = Str (js ''123456789'')\<rparr> =
     Inr (envelope (js ''acct'') (js ''pw&amp;1'')
            (js ''&lt;b&gt;&quot;A&quot; &amp; &apos;B&apos;&lt;/b&gt;'')
            (js ''O&apos;Neil '' @ [0x4E2D, 0xD83D, 0xDE00])
            (js ''123456789''))
   \<and> parse_xml (envelope (js ''acct'') (js ''pw&amp;1'')
            (js ''&lt;b&gt;&quot;A&quot; &amp; &apos;B&apos;&lt;/b&gt;'')
            (js ''O&apos;Neil '' @ [0x4E2D, 0xD83D, 0xDE00])
            (js ''123456789'')) =
     Some (envelope_document (js ''acct'') (js ''pw&1'') (js ''<b>"A" & 'B'</b>'')
             (js ''O'Neil '' @ [0x4E2D, 0xD83D, 0xDE00]) (js ''123456789''))\<close>
proof -
  have w: "escape5 [0x4E2D, 0xD83D, 0xDE00] = [0x4E2D, 0xD83D, 0xDE00]"
    by (simp add: escape5_Cons escape5_Nil esc1_def cu_def)
  have e: \<open>escape5 (js ''<b>"A" & 'B'</b>'')
             = js ''&lt;b&gt;&quot;A&quot; &amp; &apos;B&apos;&lt;/b&gt;''\<close>
    \<open>escape5 (js ''O'Neil '' @ [0x4E2D, 0xD83D, 0xDE00])
       = js ''O&apos;Neil '' @ [0x4E2D, 0xD83D, 0xDE00]\<close>
    by (simp_all add: escape5_append w) (simp_all add: js_Cons escape5_Cons escape5_Nil esc1_def)
  have c: "credential (TLO_USERNAME (CONFIG example_env)) = js ''acct''"
    "credential (TLO_PASSWORD (CONFIG example_env)) = js ''pw&1''"
    by (simp_all add: credential_def CONFIG_def example_env_def)
  have t1: \<open>xml_text (js ''<b>"A" & 'B'</b>'')\<close> \<open>xml_text (js ''O'Neil '')\<close>
    by (rule xml_text_plain; simp add: xml_char_def js_Cons cu_def)+
  have "xml_text [0x4E2D, 0xD83D, 0xDE00]"
    by (simp add: xml_text_def xml_char_def high_surrogate_def low_surrogate_def)
  with t1 have t2: \<open>xml_text (js ''O'Neil '' @ [0x4E2D, 0xD83D, 0xDE00])\<close>
    by (intro xml_text_append)
  show ?thesis
    using envelope_round_trip [of example_runtime
        \<open>\<lparr>firstName = Str (js ''<b>"A" & 'B'</b>''),
          lastName = Str (js ''O'Neil '' @ [0x4E2D, 0xD83D, 0xDE00]),
          ssn = Str (js ''123456789'')\<rparr>\<close>
        \<open>js ''<b>"A" & 'B'</b>''\<close> \<open>js ''O'Neil '' @ [0x4E2D, 0xD83D, 0xDE00]\<close>
        \<open>js ''123456789''\<close> "CONFIG example_env"]
    by (simp add: c e example_escapes t1 t2 example_texts)
qed

end
